theory Spec2Isabelle
  imports Main "HOL-Library.AList" "HOL-Library.Sublist"
begin

section \<open>JavaScript values\<close>

text \<open>
  The values that travel through the agent loop, the action executor and the
  placeholder engine are JSON scalars. \<open>undefined\<close> is \<open>None\<close> of \<open>jsval option\<close>.
  Two further values are reachable only through the prototype chain of a plain object:
  a built-in function (\<open>JNative name\<close>) and \<open>Object.prototype\<close> itself.
  Nested arrays and nested objects are outside the model. Strings are byte lists, so
  every statement about characters is about ASCII.

  A number is known by the text that \<open>Number.prototype.toString\<close> gives for it:
  \<open>350000\<close>, \<open>2.5\<close>, \<open>-7\<close>, \<open>1e+21\<close>, \<open>NaN\<close>, \<open>Infinity\<close>. That text has at least
  one character, which the type keeps apart from the rest. Nothing else of a number is
  read by the code modelled here, except whether it is falsy: \<open>0\<close>, \<open>-0\<close> (which
  prints as \<open>0\<close>) and \<open>NaN\<close> are.
\<close>

datatype jsnumber = Number char string

fun number_text :: "jsnumber \<Rightarrow> string" where
  "number_text (Number c cs) = c # cs"

datatype jsval =
    JNull
  | JBool bool
  | JNum jsnumber
  | JStr string
  | JNative string
  | JObjectProto

type_synonym jsobj = "(string \<times> jsval) list"

fun truthy :: "jsval \<Rightarrow> bool" where
  "truthy JNull = False"
| "truthy (JBool b) = b"
| "truthy (JNum n) = (number_text n \<noteq> ''0'' \<and> number_text n \<noteq> ''NaN'')"
| "truthy (JStr s) = (s \<noteq> [])"
| "truthy (JNative f) = True"
| "truthy JObjectProto = True"

fun truthy_opt :: "jsval option \<Rightarrow> bool" where
  "truthy_opt None = False"
| "truthy_opt (Some v) = truthy v"

text \<open>\<open>a || b\<close>: the left operand when it is truthy, else the right one.\<close>

definition js_or :: "jsval option \<Rightarrow> jsval option \<Rightarrow> jsval option" where
  "js_or a b = (if truthy_opt a then a else b)"

fun typeof :: "jsval option \<Rightarrow> string" where
  "typeof None = ''undefined''"
| "typeof (Some JNull) = ''object''"
| "typeof (Some (JBool b)) = ''boolean''"
| "typeof (Some (JNum n)) = ''number''"
| "typeof (Some (JStr s)) = ''string''"
| "typeof (Some (JNative f)) = ''function''"
| "typeof (Some JObjectProto) = ''object''"

text \<open>The decimal digits of a counter, as a template literal prints it.\<close>

definition digit_char :: "nat \<Rightarrow> char" where
  "digit_char d = ''0123456789'' ! (d mod 10)"

fun show_nat :: "nat \<Rightarrow> string" where
  "show_nat n = (if n < 10 then [digit_char n] else show_nat (n div 10) @ [digit_char n])"

declare show_nat.simps [simp del]

text \<open>\<open>String(v)\<close>, the coercion a template literal and \<open>String.prototype.replace\<close> apply.\<close>

fun ToString :: "jsval \<Rightarrow> string" where
  "ToString JNull = ''null''"
| "ToString (JBool b) = (if b then ''true'' else ''false'')"
| "ToString (JNum n) = number_text n"
| "ToString (JStr s) = s"
| "ToString (JNative f) = ''function '' @ f @ ''() { [native code] }''"
| "ToString JObjectProto = ''[object Object]''"

fun ToString_opt :: "jsval option \<Rightarrow> string" where
  "ToString_opt None = ''undefined''"
| "ToString_opt (Some v) = ToString v"

text \<open>
  Property lookup on a plain object (an object literal, or an object parsed from JSON):
  an own property first, then \<open>Object.prototype\<close>. \<open>constructor\<close> is the function
  \<open>Object\<close>, \<open>__proto__\<close> yields \<open>Object.prototype\<close>, the others are the built-in
  methods, each a function named like its key.
\<close>

definition object_prototype_keys :: "string list" where
  "object_prototype_keys =
     [''constructor'', ''__proto__'', ''hasOwnProperty'', ''isPrototypeOf'', ''propertyIsEnumerable'', ''toLocaleString'',
      ''toString'', ''valueOf'', ''__defineGetter__'', ''__defineSetter__'',
      ''__lookupGetter__'', ''__lookupSetter__'']"

definition object_prototype :: "string \<Rightarrow> jsval option" where
  "object_prototype k =
     (if k = ''constructor'' then Some (JNative ''Object'')
      else if k = ''__proto__'' then Some JObjectProto
      else if k \<in> set object_prototype_keys then Some (JNative k)
      else None)"

text \<open>An object literal may hold an own property whose value is \<open>undefined\<close>.\<close>

definition get_property :: "(string \<times> jsval option) list \<Rightarrow> string \<Rightarrow> jsval option" where
  "get_property obj k = (case map_of obj k of Some v \<Rightarrow> v | None \<Rightarrow> object_prototype k)"

definition get_field :: "jsobj \<Rightarrow> string \<Rightarrow> jsval option" where
  "get_field obj k = (case map_of obj k of Some v \<Rightarrow> Some v | None \<Rightarrow> object_prototype k)"

definition upper_letters :: string where
  "upper_letters = ''ABCDEFGHIJKLMNOPQRSTUVWXYZ''"

definition lower_letters :: string where
  "lower_letters = ''abcdefghijklmnopqrstuvwxyz''"

definition lower_char :: "char \<Rightarrow> char" where
  "lower_char c = (case map_of (zip upper_letters lower_letters) c of Some d \<Rightarrow> d | None \<Rightarrow> c)"

definition toLowerCase :: "string \<Rightarrow> string" where
  "toLowerCase s = map lower_char s"

section \<open>Placeholder substitution (backend/src/routes/extension.ts)\<close>

text \<open>
  A listing row. String columns are nullable (\<open>None\<close> is \<open>null\<close>), so are the numeric
  ones, which hold what \<open>parseFloat\<close> and \<open>parseInt\<close> made of a spreadsheet cell.
  \<open>listingData\<close> is the free-form bag: the parsed spreadsheet row the upload route
  stored, a plain object of scalar cells, or \<open>null\<close>.
\<close>

record listing =
  address :: "string option"
  city :: "string option"
  state :: "string option"
  zipCode :: "string option"
  price :: "jsnumber option"
  bedrooms :: "jsnumber option"
  bathrooms :: "jsnumber option"
  squareFeet :: "jsnumber option"
  description :: "string option"
  mlsNumber :: "string option"
  listingData :: "jsobj option"

definition string_or_null :: "string option \<Rightarrow> jsval option" where
  "string_or_null s = (case s of None \<Rightarrow> Some JNull | Some t \<Rightarrow> Some (JStr t))"

text \<open>\<open>n?.toString()\<close>: \<open>undefined\<close> for \<open>null\<close>, the text of the number otherwise.\<close>

definition number_toString :: "jsnumber option \<Rightarrow> jsval option" where
  "number_toString n = (case n of None \<Rightarrow> None | Some i \<Rightarrow> Some (JStr (number_text i)))"

definition fieldMap :: "listing \<Rightarrow> (string \<times> jsval option) list" where
  "fieldMap l =
     [(''address'', string_or_null (address l)),
      (''city'', string_or_null (city l)),
      (''state'', string_or_null (state l)),
      (''zipcode'', string_or_null (zipCode l)),
      (''zip'', string_or_null (zipCode l)),
      (''price'', number_toString (price l)),
      (''bedrooms'', number_toString (bedrooms l)),
      (''bathrooms'', number_toString (bathrooms l)),
      (''squarefeet'', number_toString (squareFeet l)),
      (''description'', string_or_null (description l)),
      (''mlsnumber'', string_or_null (mlsNumber l))]"

definition canonical_fields :: "string list" where
  "canonical_fields =
     [''address'', ''city'', ''state'', ''zipcode'', ''zip'', ''price'', ''bedrooms'',
      ''bathrooms'', ''squarefeet'', ''description'', ''mlsnumber'']"

text \<open>\<open>(listing.listingData as any)?.[fieldName]\<close>\<close>

definition listingData_lookup :: "listing \<Rightarrow> string \<Rightarrow> jsval option" where
  "listingData_lookup l fieldName =
     (case listingData l of None \<Rightarrow> None | Some bag \<Rightarrow> get_field bag fieldName)"

definition token_text :: "string \<Rightarrow> string" where
  "token_text fieldName = ''{{'' @ fieldName @ ''}}''"

text \<open>
  The replacer callback: \<open>fieldMap[field] || listingData?.[fieldName] || match\<close>, whose
  result \<open>replace\<close> coerces to a string.
\<close>

definition replacer :: "listing \<Rightarrow> string \<Rightarrow> string" where
  "replacer l fieldName =
     (let field = toLowerCase fieldName in
      ToString_opt
        (js_or (js_or (get_property (fieldMap l) field) (listingData_lookup l fieldName))
               (Some (JStr (token_text fieldName)))))"

text \<open>The regular expression's \<open>\w\<close>: an ASCII letter, a digit or the underscore.\<close>

definition is_word_char :: "char \<Rightarrow> bool" where
  "is_word_char c = (c \<in> set (upper_letters @ lower_letters @ ''0123456789_''))"

text \<open>
  One attempt of \<open>{{(\w+)}}\<close> at the start of the input: the captured name and the
  input after the match. \<open>\w+\<close> is greedy, and giving back a word character cannot
  help, since \<open>}}\<close> must follow.
\<close>

fun match_at :: "string \<Rightarrow> (string \<times> string) option" where
  "match_at (a # b # cs) =
     (if a = CHR ''{'' \<and> b = CHR ''{'' then
        (let name = takeWhile is_word_char cs; rest = dropWhile is_word_char cs in
         if name \<noteq> [] \<and> take 2 rest = ''}}'' then Some (name, drop 2 rest) else None)
      else None)"
| "match_at cs = None"

lemma match_at_shorter: "match_at s = Some (name, rest) \<Longrightarrow> length rest < length s"
proof (cases s rule: match_at.cases)
  case (1 a b cs)
  assume m: "match_at s = Some (name, rest)"
  have "length (dropWhile is_word_char cs) \<le> length cs"
    by (rule length_dropWhile_le)
  with m 1 show ?thesis
    by (auto simp: Let_def split: if_splits)
qed auto

text \<open>\<open>value.replace(/{{(\w+)}}/g, callback)\<close>: left to right, non-overlapping.\<close>

function replace_all :: "(string \<Rightarrow> string) \<Rightarrow> string \<Rightarrow> string" where
  "replace_all f [] = []"
| "replace_all f (c # cs) =
     (case match_at (c # cs) of
        Some (name, rest) \<Rightarrow> f name @ replace_all f rest
      | None \<Rightarrow> c # replace_all f cs)"
  by pat_completeness auto
termination
  by (relation "measure (\<lambda>(f, s). length s)") (auto dest: match_at_shorter)

text \<open>\<open>replacePlaceholders\<close>: a value that is not a string is returned as it is.\<close>

fun replacePlaceholders :: "listing \<Rightarrow> jsval option \<Rightarrow> jsval option" where
  "replacePlaceholders l (Some (JStr s)) = Some (JStr (replace_all (replacer l) s))"
| "replacePlaceholders l v = v"

record workflow =
  status :: string
  recordedActions :: "jsobj list option"

datatype next_action_reply =
    ErrorReply nat string
  | DataReply "jsobj option" "int option" "nat option" bool "string option"

definition falsy_id :: "int option \<Rightarrow> bool" where
  "falsy_id i = (i = None \<or> i = Some 0)"

definition set_property :: "string \<Rightarrow> jsval option \<Rightarrow> jsobj \<Rightarrow> jsobj" where
  "set_property k v obj = (case v of None \<Rightarrow> obj | Some x \<Rightarrow> AList.update k x obj)"

definition processedAction :: "listing \<Rightarrow> jsobj \<Rightarrow> jsobj" where
  "processedAction l nextAction =
     set_property ''text'' (replacePlaceholders l (get_field nextAction ''text''))
       (set_property ''value'' (replacePlaceholders l (get_field nextAction ''value''))
          nextAction)"

text \<open>\<open>(workflow.recordedActions as any[]) || []\<close>\<close>

definition recorded_trace :: "workflow \<Rightarrow> jsobj list" where
  "recorded_trace w = (case recordedActions w of None \<Rightarrow> [] | Some as \<Rightarrow> as)"

text \<open>
  The route, given what the two database lookups found. A cursor below zero reads
  \<open>actions[currentStep]\<close> as \<open>undefined\<close>, whose \<open>value\<close> cannot be read: the
  handler's \<open>catch\<close> answers 500.
\<close>

definition get_next_action ::
  "workflow option \<Rightarrow> listing option \<Rightarrow> int option \<Rightarrow> int option \<Rightarrow> int \<Rightarrow> next_action_reply" where
  "get_next_action found_workflow found_listing reqWorkflowId reqListingId reqStep =
     (if falsy_id reqWorkflowId \<or> falsy_id reqListingId
      then ErrorReply 400 ''workflowId and listingId are required''
      else case found_workflow of
        None \<Rightarrow> ErrorReply 404 ''Workflow not found''
      | Some workflow \<Rightarrow>
          if status workflow \<noteq> ''ready'' \<and> status workflow \<noteq> ''active''
          then ErrorReply 400 ''Workflow is not ready for deterministic playback''
          else case found_listing of
            None \<Rightarrow> ErrorReply 404 ''Listing not found''
          | Some l \<Rightarrow>
              (let actions = recorded_trace workflow in
               if int (length actions) \<le> reqStep
               then DataReply None None None True (Some ''Workflow execution complete'')
               else if reqStep < 0
               then ErrorReply 500 ''Cannot read properties of undefined (reading 'value')''
               else DataReply (Some (processedAction l (actions ! nat reqStep)))
                      (Some reqStep) (Some (length actions)) False None))"

text \<open>
  The record value of a canonical field, read off the record and not off the replacer's
  table: the column the field is bound to, a string column as it is and a numeric column
  as the text of its number; \<open>None\<close> when the column is \<open>null\<close>.
\<close>

definition record_value :: "listing \<Rightarrow> string \<Rightarrow> string option" where
  "record_value l field =
     (if field = ''address'' then address l
      else if field = ''city'' then city l
      else if field = ''state'' then state l
      else if field = ''zipcode'' \<or> field = ''zip'' then zipCode l
      else if field = ''price'' then map_option number_text (price l)
      else if field = ''bedrooms'' then map_option number_text (bedrooms l)
      else if field = ''bathrooms'' then map_option number_text (bathrooms l)
      else if field = ''squarefeet'' then map_option number_text (squareFeet l)
      else if field = ''description'' then description l
      else if field = ''mlsnumber'' then mlsNumber l
      else None)"

text \<open>An own cell of the data bag, under the spelling given.\<close>

definition bag_value :: "listing \<Rightarrow> string \<Rightarrow> jsval option" where
  "bag_value l fieldName = (case listingData l of None \<Rightarrow> None | Some bag \<Rightarrow> map_of bag fieldName)"

section \<open>Action executor (content script, actions.ts)\<close>

text \<open>
  The page as the executor sees it: elements in a store, addressed by a handle;
  \<open>querySelector\<close> as a function of the selector string that throws (\<open>Inl\<close>), finds
  nothing (\<open>Inr None\<close>) or returns a handle; the focused element. What is done to an
  element is appended to its \<open>dispatched\<close> list. The pauses between the steps
  (\<open>wait\<close>) change nothing of the page and are left out.

  Of an element the model keeps what the two typing functions read and write:
  whether it is an \<open>HTMLInputElement\<close> or an \<open>HTMLTextAreaElement\<close>
  (\<open>isTextControl\<close>) and, for an input, its type; whether \<open>focus()\<close> can focus it;
  whether it is content-editable; its value; its selection offsets, \<open>None\<close> where the
  getters give \<open>null\<close> (an input whose type has no selection, such as \<open>email\<close> or
  \<open>number\<close>); and what its type makes of an assigned value (\<open>sanitized\<close>: a text
  field drops line breaks; the identity where the type has no such rule). On any other
  element \<open>value\<close> is a plain property. A file input, whose value cannot be assigned
  by a script, is outside the model.
\<close>

datatype dom_event =
    ScrollIntoView
  | Focus
  | InputEvent
  | ChangeEvent
  | KeyDown char
  | KeyPress char
  | KeyUp char
  | InsertText char

record element =
  isTextControl :: bool
  inputType :: string
  focusable :: bool
  isContentEditable :: bool
  el_value :: string
  selectionStart :: "nat option"
  selectionEnd :: "nat option"
  sanitized :: "string \<Rightarrow> string"
  dispatched :: "dom_event list"

record document =
  elements :: "nat \<Rightarrow> element"
  querySelector :: "string \<Rightarrow> string + nat option"
  activeElement :: "nat option"

type_synonym outcome = "(string + unit) \<times> document"

definition update_element :: "nat \<Rightarrow> (element \<Rightarrow> element) \<Rightarrow> document \<Rightarrow> document" where
  "update_element e f d = d\<lparr>elements := (elements d)(e := f (elements d e))\<rparr>"

definition dispatchEvent :: "nat \<Rightarrow> dom_event \<Rightarrow> document \<Rightarrow> document" where
  "dispatchEvent e ev d = update_element e (\<lambda>el. el\<lparr>dispatched := dispatched el @ [ev]\<rparr>) d"

text \<open>\<open>element.focus()\<close>: the element becomes the active one if it can be focused.\<close>

definition focus :: "nat \<Rightarrow> document \<Rightarrow> document" where
  "focus e d =
     dispatchEvent e Focus (if focusable (elements d e) then d\<lparr>activeElement := Some e\<rparr> else d)"

text \<open>
  \<open>element.value = v\<close>. On a text control the value is sanitised, and when it then
  differs from the old value the caret moves to its end, which shows in the selection
  offsets of a type that has them.
\<close>

definition assign_value :: "nat \<Rightarrow> string \<Rightarrow> document \<Rightarrow> document" where
  "assign_value e v d =
     update_element e
       (\<lambda>el. if isTextControl el then
               (let new = sanitized el v in
                if new \<noteq> el_value el \<and> selectionStart el \<noteq> None
                then el\<lparr>el_value := new, selectionStart := Some (length new),
                        selectionEnd := Some (length new)\<rparr>
                else el\<lparr>el_value := new\<rparr>)
             else el\<lparr>el_value := v\<rparr>) d"

text \<open>One round of the typing loop: \<open>element.value += char\<close>, then an input event.\<close>

definition type_char :: "nat \<Rightarrow> char \<Rightarrow> document \<Rightarrow> document" where
  "type_char e c d =
     dispatchEvent e InputEvent (assign_value e (el_value (elements d e) @ [c]) d)"

definition invalid_text :: "jsval option \<Rightarrow> string" where
  "invalid_text text = ''Invalid text value: expected string, got '' @ typeof text"

definition typeText :: "jsval option \<Rightarrow> jsval option \<Rightarrow> document \<Rightarrow> outcome" where
  "typeText selector text d =
     (case querySelector d (ToString_opt selector) of
        Inl err \<Rightarrow> (Inl err, d)
      | Inr None \<Rightarrow> (Inl (''Element not found: '' @ ToString_opt selector), d)
      | Inr (Some e) \<Rightarrow>
          (case text of
             Some (JStr s) \<Rightarrow>
               (let d1 = dispatchEvent e ScrollIntoView d;
                    d2 = focus e d1;
                    d3 = assign_value e [] d2;
                    d4 = fold (type_char e) s d3
                in (Inr (), dispatchEvent e ChangeEvent d4))
           | _ \<Rightarrow> (Inl (invalid_text text), d)))"

text \<open>One round of the key loop of \<open>typeAtCursor\<close> on an element that is no text control.\<close>

definition key_char :: "nat \<Rightarrow> char \<Rightarrow> document \<Rightarrow> document" where
  "key_char e c d =
     (let d1 = dispatchEvent e (KeyPress c) (dispatchEvent e (KeyDown c) d);
          d2 = (if isContentEditable (elements d1 e) then dispatchEvent e (InsertText c) d1 else d1)
      in dispatchEvent e (KeyUp c) d2)"

text \<open>\<open>n || fallback\<close> on a selection offset: \<open>null\<close> and \<open>0\<close> are falsy.\<close>

definition offset_or :: "nat option \<Rightarrow> nat \<Rightarrow> nat" where
  "offset_or n fallback = (case n of None \<Rightarrow> fallback | Some k \<Rightarrow> if k = 0 then fallback else k)"

text \<open>
  \<open>element.selectionStart = element.selectionEnd = pos\<close>: the inner assignment, to
  \<open>selectionEnd\<close>, is made first. On an input whose type has no selection that setter
  throws an \<open>InvalidStateError\<close>; otherwise both offsets end at \<open>pos\<close>, or at the end
  of the value if \<open>pos\<close> lies beyond it.
\<close>

definition no_selection :: "element \<Rightarrow> string" where
  "no_selection el =
     ''Failed to set the 'selectionEnd' property on 'HTMLInputElement': The input element's type (''
     @ CHR 0x27 # inputType el @ CHR 0x27 # '') does not support selection.''"

definition set_selection :: "nat \<Rightarrow> nat \<Rightarrow> document \<Rightarrow> document" where
  "set_selection e pos d =
     update_element e
       (\<lambda>el. el\<lparr>selectionStart := Some (min pos (length (el_value el))),
                selectionEnd := Some (min pos (length (el_value el)))\<rparr>) d"

definition typeAtCursor :: "jsval option \<Rightarrow> document \<Rightarrow> outcome" where
  "typeAtCursor text d =
     (case text of
        Some (JStr s) \<Rightarrow>
          (case activeElement d of
             None \<Rightarrow> (Inl ''No element is focused for typing'', d)
           | Some e \<Rightarrow>
               if isTextControl (elements d e) then
                 (let currentValue = el_value (elements d e);
                      cursorPos = offset_or (selectionStart (elements d e)) (length currentValue);
                      endPos = offset_or (selectionEnd (elements d e)) cursorPos;
                      d1 = assign_value e
                             (take cursorPos currentValue @ s @ drop endPos currentValue) d
                  in if selectionStart (elements d e) = None
                     then (Inl (no_selection (elements d e)), d1)
                     else (Inr (),
                           dispatchEvent e ChangeEvent
                             (dispatchEvent e InputEvent
                                (set_selection e (cursorPos + length s) d1))))
               else (Inr (), fold (key_char e) s d))
      | _ \<Rightarrow> (Inl (invalid_text text), d))"

text \<open>
  The kinds whose handlers are not modelled here (they take no text to type); the
  dispatcher hands them to a parameter.
\<close>

definition other_kinds :: "string list" where
  "other_kinds =
     [''click'', ''scroll'', ''navigate'', ''upload'', ''wait'', ''click_coordinates'',
      ''key_press'', ''mouse_move'', ''click_text'']"

text \<open>\<open>action.text || (action as any).value || ''\<close>, what the \<open>type\<close> case passes on.\<close>

definition text_argument :: "jsobj \<Rightarrow> jsval option" where
  "text_argument act =
     js_or (js_or (get_field act ''text'') (get_field act ''value'')) (Some (JStr []))"

definition executeAction :: "(jsobj \<Rightarrow> document \<Rightarrow> outcome) \<Rightarrow> jsobj \<Rightarrow> document \<Rightarrow> outcome" where
  "executeAction handlers act d =
     (case get_field act ''action'' of
        Some (JStr kind) \<Rightarrow>
          if kind = ''type'' then typeText (get_field act ''selector'') (text_argument act) d
          else if kind = ''type_at_cursor'' then typeAtCursor (get_field act ''text'') d
          else if kind = ''noop'' then (Inr (), d)
          else if kind \<in> set other_kinds then handlers act d
          else (Inl (''Unknown action: '' @ kind), d)
      | other \<Rightarrow> (Inl (''Unknown action: '' @ ToString_opt other), d))"

fun is_string :: "jsval option \<Rightarrow> bool" where
  "is_string (Some (JStr s)) = True"
| "is_string v = False"

section \<open>Agent loop (background service worker)\<close>

record history_entry =
  h_action :: "jsval option"
  h_selector :: "jsval option"
  h_result :: string

record agent_state =
  running :: bool
  goal :: "string option"
  authToken :: "string option"
  workflowId :: "int option"
  tabId :: "int option"
  messageHistory :: "jsval list"
  lastMouseX :: int
  lastMouseY :: int
  actionHistory :: "history_entry list"
  currentStep :: int

definition initial_state :: agent_state where
  "initial_state =
     \<lparr>running = False, goal = None, authToken = None, workflowId = None, tabId = None,
      messageHistory = [], lastMouseX = 0, lastMouseY = 0, actionHistory = [], currentStep = 0\<rparr>"

text \<open>
  What a run does to the outside, oldest first: the pauses, the chat messages sent to
  the popup, the actions dispatched to the tab and those reported to the backend.
  Status lines and overlay updates, whose failures the code swallows, are left out.
  The canned help text and the workflow announcement carry pictographs and are
  constructors of their own; the pictograph that opens a failure message is dropped.
\<close>

datatype effect =
    Wait nat
  | AgentMessage string
  | HelpMessage
  | WorkflowCreatedMessage
  | ExecuteOnTab jsobj
  | RecordAction jsobj

definition MAX_ITERATIONS :: int where
  "MAX_ITERATIONS = 50"

definition MAX_RETRIES :: nat where
  "MAX_RETRIES = 3"

subsection \<open>isJustAQuestion\<close>

definition whitespace :: string where
  "whitespace = [CHR '' '', CHR 0x09, CHR ''\<newline>'', CHR 0x0B, CHR 0x0C, CHR 0x0D]"

definition trim :: "string \<Rightarrow> string" where
  "trim s = rev (dropWhile (\<lambda>c. c \<in> set whitespace) (rev (dropWhile (\<lambda>c. c \<in> set whitespace) s)))"

definition greetings :: "string list" where
  "greetings = [''hi'', ''hello'', ''hey'', ''good morning'', ''good afternoon'', ''good evening'']"

definition questionPatterns :: "string list" where
  "questionPatterns =
     [''what can you do'', ''what are you'', ''who are you'', ''how do you work'',
      ''what is this'', ''how does this work'']"

definition actionVerbs :: "string list" where
  "actionVerbs =
     [''login'', ''log in'', ''sign in'', ''signin'',
      ''click'', ''press'', ''tap'', ''select'',
      ''fill'', ''enter'', ''type'', ''input'', ''write'',
      ''submit'', ''send'', ''post'', ''upload'',
      ''add'', ''create'', ''make'', ''build'',
      ''go to'', ''navigate'', ''open'', ''visit'',
      ''find'', ''search'', ''look for'',
      ''download'', ''save'', ''export'',
      ''figure out'', ''learn'', ''teach'', ''show me'']"

definition isJustAQuestion :: "string \<Rightarrow> bool" where
  "isJustAQuestion message =
     (let lowerMessage = trim (toLowerCase message) in
      if list_ex (\<lambda>g. prefix g lowerMessage \<and>
                      list_all (\<lambda>c. c \<in> set (whitespace @ ''!.'')) (drop (length g) lowerMessage))
           greetings
      then True
      else if list_ex (\<lambda>p. prefix p lowerMessage) questionPatterns \<or> lowerMessage = ''help''
      then True
      else if list_ex (\<lambda>verb. sublist verb lowerMessage) actionVerbs then False
      else if length lowerMessage < 15 \<and> \<not> sublist ''workflow'' lowerMessage then True
      else False)"

subsection \<open>stopAgent and the history buffer\<close>

definition stopAgent :: "agent_state \<Rightarrow> agent_state" where
  "stopAgent st = st\<lparr>running := False, goal := None, messageHistory := [], actionHistory := []\<rparr>"

text \<open>\<open>push\<close>, then one \<open>shift\<close> when the length has passed 10.\<close>

definition push_history :: "history_entry \<Rightarrow> history_entry list \<Rightarrow> history_entry list" where
  "push_history e h = (let h' = h @ [e] in if length h' > 10 then tl h' else h')"

subsection \<open>The decision call and its retries\<close>

text \<open>
  What the backend answers: the text, the action (an object, or \<open>None\<close> for \<open>null\<close>
  or absent) and the \<open>done\<close> flag the route sets when the model ends its turn.
\<close>

record decision =
  d_response :: "string option"
  d_action :: "jsobj option"
  d_done :: "bool option"

text \<open>
  One call of the decision endpoint: it fails (transport error, or \<open>success: false\<close>)
  with a message, or yields \<open>aiData.data\<close>, which may be missing.
\<close>

datatype attempt = ApiError string | ApiData "decision option"

text \<open>
  The inner \<open>while (retries < MAX_RETRIES)\<close> loop, \<open>calls n\<close> being the outcome of the
  call made when \<open>retries = n\<close>. The loop ends with the response, or throws.
\<close>

function decide_with_retry ::
  "(nat \<Rightarrow> attempt) \<Rightarrow> nat \<Rightarrow> effect list \<Rightarrow> (string + decision option) \<times> effect list" where
  "decide_with_retry calls retries log =
     (if retries < MAX_RETRIES then
        (case calls retries of
           ApiData response \<Rightarrow> (Inr response, log)
         | ApiError message \<Rightarrow>
             if MAX_RETRIES \<le> retries + 1
             then (Inl (''API failed after '' @ show_nat MAX_RETRIES @ '' attempts: '' @ message), log)
             else decide_with_retry calls (retries + 1) (log @ [Wait (1000 * 2 ^ (retries + 1))]))
      else (Inr None, log))"
  by pat_completeness auto
termination
  by (relation "measure (\<lambda>(calls, retries, log). MAX_RETRIES - retries)") auto

declare decide_with_retry.simps [simp del]

subsection \<open>One pass of the loop body\<close>

text \<open>What the outside answers during one pass.\<close>

record pass_env =
  screenshot :: "string + string"
  pageInfo :: "string + string"
  domInspection :: "string + unit"
  aiDecision :: "nat \<Rightarrow> attempt"
  executed :: "string + unit"

datatype pass_result = Continue | Break | Throw string

type_synonym loop_state = "agent_state \<times> int \<times> effect list"

definition says_done :: "string \<Rightarrow> bool" where
  "says_done textResponse =
     (sublist ''task complete'' (toLowerCase textResponse) \<or>
      sublist ''finished'' (toLowerCase textResponse))"

definition success_entry :: "jsobj \<Rightarrow> history_entry" where
  "success_entry act =
     \<lparr>h_action = get_field act ''action'', h_selector = get_field act ''selector'',
      h_result = ''success''\<rparr>"

definition failed_entry :: "jsobj \<Rightarrow> string \<Rightarrow> history_entry" where
  "failed_entry act message =
     \<lparr>h_action = js_or (get_field act ''action'') (Some (JStr ''unknown'')),
      h_selector = get_field act ''selector'',
      h_result = ''failed: '' @ message\<rparr>"

definition failure_message :: "jsobj \<Rightarrow> string \<Rightarrow> string" where
  "failure_message act message =
     ''Action failed: '' @ message @ '' (tried: '' @ ToString_opt (get_field act ''action'') @
     '' on '' @ ToString_opt (js_or (get_field act ''selector'') (Some (JStr ''unknown''))) @ '')''"

definition loop_pass :: "pass_env \<Rightarrow> loop_state \<Rightarrow> pass_result \<times> loop_state" where
  "loop_pass env ls =
     (case ls of (st, iteration0, log) \<Rightarrow>
      let iteration = iteration0 + 1 in
      if falsy_id (tabId st) then (Throw ''No tab selected'', (st, iteration, log))
      else case screenshot env of
        Inl err \<Rightarrow> (Throw err, (st, iteration, log))
      | Inr shot \<Rightarrow>
      (case pageInfo env of
        Inl err \<Rightarrow> (Throw err, (st, iteration, log))
      | Inr url \<Rightarrow>
      (case domInspection env of
        Inl err \<Rightarrow> (Throw err, (st, iteration, log))
      | Inr u \<Rightarrow>
      (case decide_with_retry (aiDecision env) 0 log of
        (Inl err, log1) \<Rightarrow> (Throw err, (st, iteration, log1))
      | (Inr None, log1) \<Rightarrow> (Throw ''No response from API'', (st, iteration, log1))
      | (Inr (Some response), log1) \<Rightarrow>
          (let textResponse = (case d_response response of None \<Rightarrow> [] | Some t \<Rightarrow> t);
               log2 = (if textResponse \<noteq> [] then log1 @ [AgentMessage textResponse] else log1)
           in case d_action response of
                None \<Rightarrow> (Break, (st, iteration, log2))
              | Some act \<Rightarrow>
                  if says_done textResponse then (Break, (st, iteration, log2))
                  else (case executed env of
                     Inr u \<Rightarrow>
                       (Continue,
                        (st\<lparr>actionHistory := push_history (success_entry act) (actionHistory st),
                            currentStep := currentStep st + 1\<rparr>,
                         iteration,
                         log2 @ [ExecuteOnTab act, RecordAction act, Wait 1500]))
                   | Inl message \<Rightarrow>
                       (Continue,
                        (st\<lparr>actionHistory := push_history (failed_entry act message) (actionHistory st)\<rparr>,
                         iteration - 1,
                         log2 @ [ExecuteOnTab act, AgentMessage (failure_message act message),
                                 Wait 1500]))))))))"

subsection \<open>The loop and the run\<close>

text \<open>
  What happens while a run is in flight: the passes of the loop, and stop requests. A
  stop request is handled while the loop is suspended somewhere in a pass; the pass
  goes on to its end and the loop sees the request at its next test of the condition,
  so the request stands after the pass it arrived in. The events form a finite script;
  \<open>Unfinished\<close> says that the script ended while the loop was still going.

  The service worker runs one piece of code at a time, and a message is handled while a
  loop is suspended. Every call of \<open>runAgent\<close> has an iteration counter of its own;
  the state is one, shared by all calls and by \<open>stopAgent\<close>. So a loop that was
  suspended while a message handler changed the state goes on as \<open>run_loop\<close> from its
  own counter on the state it finds.
\<close>

datatype run_event = Pass pass_env | StopRequest

datatype loop_exit = Exited | Thrown string | Unfinished

fun run_loop :: "run_event list \<Rightarrow> loop_state \<Rightarrow> loop_exit \<times> loop_state" where
  "run_loop [] (st, iteration, log) =
     (if running st \<and> iteration < MAX_ITERATIONS then (Unfinished, (st, iteration, log))
      else (Exited, (st, iteration, log)))"
| "run_loop (ev # evs) (st, iteration, log) =
     (if running st \<and> iteration < MAX_ITERATIONS then
        (case ev of
           StopRequest \<Rightarrow> run_loop evs (stopAgent st, iteration, log)
         | Pass env \<Rightarrow>
             (case loop_pass env (st, iteration, log) of
                (Continue, ls) \<Rightarrow> run_loop evs ls
              | (Break, ls) \<Rightarrow> (Exited, ls)
              | (Throw message, ls) \<Rightarrow> (Thrown message, ls)))
      else (Exited, (st, iteration, log)))"

text \<open>
  The action a pass goes on to execute, if it gets that far: the captures succeed, the
  decision call yields a response within its retries, and the response neither says
  that the task is done nor lacks an action.
\<close>

definition decided_action :: "pass_env \<Rightarrow> jsobj option" where
  "decided_action env =
     (case (screenshot env, pageInfo env, domInspection env,
            fst (decide_with_retry (aiDecision env) 0 [])) of
        (Inr shot, Inr url, Inr u, Inr (Some response)) \<Rightarrow>
          if says_done (case d_response response of None \<Rightarrow> [] | Some t \<Rightarrow> t) then None
          else d_action response
      | _ \<Rightarrow> None)"

definition execution_fails :: "pass_env \<Rightarrow> bool" where
  "execution_fails env = (decided_action env \<noteq> None \<and> isl (executed env))"

definition execution_succeeds :: "pass_env \<Rightarrow> bool" where
  "execution_succeeds env = (decided_action env \<noteq> None \<and> \<not> isl (executed env))"

text \<open>The same answers with the \<open>done\<close> flag of every decision set to \<open>flag\<close>.\<close>

definition with_done :: "bool option \<Rightarrow> pass_env \<Rightarrow> pass_env" where
  "with_done flag env =
     env\<lparr>aiDecision :=
           (\<lambda>n. case aiDecision env n of
                  ApiData (Some r) \<Rightarrow> ApiData (Some (r\<lparr>d_done := flag\<rparr>))
                | a \<Rightarrow> a)\<rparr>"

definition exit_of :: "loop_exit \<times> loop_state \<Rightarrow> loop_exit" where
  "exit_of r = fst r"


definition iteration_of :: "loop_exit \<times> loop_state \<Rightarrow> int" where
  "iteration_of r = fst (snd (snd r))"

record tab =
  tab_id :: "int option"
  tab_url :: "string option"

text \<open>What the outside answers before the loop, and the script of the loop.\<close>

record run_env =
  activeTab :: "tab option"
  workflowCreation :: "string + int"
  contentScriptLoaded :: bool
  scriptInjected :: bool
  script :: "run_event list"

definition internal_page :: "string option \<Rightarrow> bool" where
  "internal_page url =
     (case url of
        None \<Rightarrow> True
      | Some u \<Rightarrow> u = [] \<or> prefix ''chrome://'' u \<or> prefix ''edge://'' u \<or> prefix ''about:'' u)"

text \<open>
  How a call of \<open>runAgent\<close> ends: it returns, it throws to its caller, or (\<open>Pending\<close>)
  the script ended with the loop still going.
\<close>

datatype run_outcome = Returned | Raised string | Pending

definition runAgent ::
  "run_env \<Rightarrow> string \<Rightarrow> string \<Rightarrow> agent_state \<Rightarrow> run_outcome \<times> agent_state \<times> effect list" where
  "runAgent env goalText token st =
     (if running st then (Raised ''Agent is already running'', st, [])
      else if isJustAQuestion goalText then (Returned, st, [HelpMessage])
      else
        let st1 = st\<lparr>running := True, goal := Some goalText, authToken := Some token,
                      messageHistory := [], lastMouseX := 0, lastMouseY := 0,
                      actionHistory := [], currentStep := 0\<rparr>
        in case activeTab env of
          None \<Rightarrow> (Raised ''Cannot read properties of undefined (reading 'id')'', st1, [])
        | Some t \<Rightarrow>
            if falsy_id (tab_id t) then (Raised ''No active tab found'', st1, [])
            else if internal_page (tab_url t) then
              (Raised ''Cannot automate on browser internal pages. Please navigate to a regular website (http:// or https://)'',
               st1, [])
            else
              let st2 = st1\<lparr>tabId := tab_id t\<rparr>
              in case workflowCreation env of
                Inl message \<Rightarrow> (Raised (''Failed to create workflow: '' @ message), st2, [])
              | Inr wid \<Rightarrow>
                  let st3 = st2\<lparr>workflowId := Some wid\<rparr>
                  in if \<not> contentScriptLoaded env \<and> \<not> scriptInjected env then
                       (Raised ''Failed to load automation script on this page. Try refreshing the page.'',
                        st3, [WorkflowCreatedMessage])
                     else
                       let log0 = (if contentScriptLoaded env then [WorkflowCreatedMessage]
                                   else [WorkflowCreatedMessage, Wait 500])
                       in case run_loop (script env) (st3, 0, log0) of
                         (Unfinished, (s, iteration, log)) \<Rightarrow> (Pending, s, log)
                       | (Exited, (s, iteration, log)) \<Rightarrow>
                           (Returned, stopAgent s,
                            if MAX_ITERATIONS \<le> iteration
                            then log @ [AgentMessage ''Reached maximum iterations. Task may not be complete.'']
                            else log)
                       | (Thrown message, (s, iteration, log)) \<Rightarrow>
                           (Returned, stopAgent s, log @ [AgentMessage (''Error: '' @ message)]))"

section \<open>Example inputs\<close>

definition example_listing :: listing where
  "example_listing =
     \<lparr>address = Some ''123 Main St'', city = Some [], state = Some ''FL'', zipCode = None,
      price = Some (Number CHR ''3'' ''50000''), bedrooms = Some (Number CHR ''3'' []),
      bathrooms = Some (Number CHR ''2'' ''.5''), squareFeet = None,
      description = None, mlsNumber = Some ''A1'',
      listingData = Some [(''City'', JStr ''Miami''), (''Agent'', JStr ''Rivera'')]\<rparr>"

definition example_trace :: "jsobj list" where
  "example_trace =
     [[(''action'', JStr ''navigate''), (''url'', JStr ''https://vls.example/edit/{{MLSNUMBER}}'')],
      [(''action'', JStr ''type''), (''selector'', JStr ''#addr''), (''text'', JStr ''{{ADDRESS}}'')]]"

definition example_workflow :: workflow where
  "example_workflow = \<lparr>status = ''ready'', recordedActions = Some example_trace\<rparr>"

text \<open>
  What a text field and an e-mail field make of an assigned value: the first drops line
  breaks, the second also the white space at both ends.
\<close>

definition text_field_rule :: "string \<Rightarrow> string" where
  "text_field_rule v = filter (\<lambda>c. c \<noteq> CHR 0x0A \<and> c \<noteq> CHR 0x0D) v"

definition email_field_rule :: "string \<Rightarrow> string" where
  "email_field_rule v =
     (let space = (\<lambda>c. c \<in> set [CHR 0x09, CHR 0x0A, CHR 0x0C, CHR 0x0D, CHR '' ''])
      in rev (dropWhile space (rev (dropWhile space (text_field_rule v)))))"

text \<open>A text field holding \<open>old\<close>, its middle letter selected.\<close>

definition example_element :: element where
  "example_element =
     \<lparr>isTextControl = True, inputType = ''text'', focusable = True, isContentEditable = False,
      el_value = ''old'', selectionStart = Some 1, selectionEnd = Some 2,
      sanitized = text_field_rule, dispatched = []\<rparr>"

text \<open>An e-mail field holding \<open>ann\<close>; its type has no selection.\<close>

definition email_element :: element where
  "email_element =
     \<lparr>isTextControl = True, inputType = ''email'', focusable = True, isContentEditable = False,
      el_value = ''ann'', selectionStart = None, selectionEnd = None,
      sanitized = email_field_rule, dispatched = []\<rparr>"

definition example_document :: document where
  "example_document =
     \<lparr>elements = (\<lambda>n. example_element),
      querySelector = (\<lambda>s. if s = ''#addr'' then Inr (Some 0) else Inr None),
      activeElement = Some 0\<rparr>"

definition no_handlers :: "jsobj \<Rightarrow> document \<Rightarrow> outcome" where
  "no_handlers act d = (Inr (), d)"

text \<open>A pass in which the decision source proposes \<open>act\<close> and the tab answers \<open>res\<close>.\<close>

definition acting :: "jsobj \<Rightarrow> string + unit \<Rightarrow> pass_env" where
  "acting act res =
     \<lparr>screenshot = Inr ''data:image/png;base64,AAAA'',
      pageInfo = Inr ''https://vls.example/login'',
      domInspection = Inr (),
      aiDecision = (\<lambda>n. ApiData (Some \<lparr>d_response = Some ''Clicking the button'',
                                              d_action = Some act, d_done = None\<rparr>)),
      executed = res\<rparr>"

text \<open>A pass in which every call of the decision endpoint fails.\<close>

definition failing_api :: pass_env where
  "failing_api =
     \<lparr>screenshot = Inr ''data:image/png;base64,AAAA'',
      pageInfo = Inr ''https://vls.example/login'',
      domInspection = Inr (),
      aiDecision = (\<lambda>n. ApiError ''Failed to fetch''),
      executed = Inr ()\<rparr>"

text \<open>
  A pass in which the backend reports the end of the model's turn the way the
  ai-decision route does: \<open>done: true\<close> together with the action \<open>{action: 'done'}\<close>;
  the tab answers what \<open>executeAction\<close> answers for that kind.
\<close>

definition done_with_action :: pass_env where
  "done_with_action =
     \<lparr>screenshot = Inr ''data:image/png;base64,AAAA'',
      pageInfo = Inr ''https://vls.example/login'',
      domInspection = Inr (),
      aiDecision = (\<lambda>n. ApiData (Some \<lparr>d_response = Some ''The listing has been submitted.'',
                                              d_action = Some [(''action'', JStr ''done'')],
                                              d_done = Some True\<rparr>)),
      executed = Inl ''Unknown action: done''\<rparr>"

definition example_run :: "run_event list \<Rightarrow> run_env" where
  "example_run evs =
     \<lparr>activeTab = Some \<lparr>tab_id = Some 12, tab_url = Some ''https://vls.example/login''\<rparr>,
      workflowCreation = Inr 4, contentScriptLoaded = True, scriptInjected = False,
      script = evs\<rparr>"

definition click_go :: jsobj where
  "click_go = [(''action'', JStr ''click''), (''selector'', JStr ''#go'')]"

text \<open>The state of a run started on the example page, after workflow 4 was created.\<close>

definition started_state :: agent_state where
  "started_state =
     \<lparr>running = True, goal = Some ''login to the site'', authToken = Some ''tok'',
      workflowId = Some 4, tabId = Some 12, messageHistory = [], lastMouseX = 0,
      lastMouseY = 0, actionHistory = [], currentStep = 0\<rparr>"

text \<open>The same run after one pass whose click succeeded, and what it has done so far.\<close>

definition after_first_click :: agent_state where
  "after_first_click =
     started_state\<lparr>actionHistory := [\<lparr>h_action = Some (JStr ''click''),
                                        h_selector = Some (JStr ''#go''), h_result = ''success''\<rparr>],
                   currentStep := 1\<rparr>"

definition first_log :: "effect list" where
  "first_log =
     [WorkflowCreatedMessage, AgentMessage ''Clicking the button'', ExecuteOnTab click_go,
      RecordAction click_go, Wait 1500]"

text \<open>The state a second start leaves, with another goal and workflow 5.\<close>

definition restarted_state :: agent_state where
  "restarted_state =
     \<lparr>running = True, goal = Some ''fill the form'', authToken = Some ''tok2'',
      workflowId = Some 5, tabId = Some 12, messageHistory = [], lastMouseX = 0,
      lastMouseY = 0, actionHistory = [], currentStep = 0\<rparr>"


section \<open>Auxiliary facts\<close>

lemma not_word_brace: "\<not> is_word_char (CHR ''}'')"
  by (simp add: is_word_char_def upper_letters_def lower_letters_def)

lemma match_at_token:
  assumes "name \<noteq> []" and "\<forall>c\<in>set name. is_word_char c"
  shows "match_at (token_text name @ rest) = Some (name, rest)"
proof -
  have tw: "takeWhile is_word_char (name @ ''}}'' @ rest) = name"
    using assms(2) not_word_brace by (simp add: takeWhile_append2)
  have dw: "dropWhile is_word_char (name @ ''}}'' @ rest) = ''}}'' @ rest"
    using assms(2) not_word_brace by (simp add: dropWhile_append2)
  show ?thesis
    using assms(1) tw dw by (simp add: token_text_def Let_def)
qed

lemma not_word_open_brace: "\<not> is_word_char (CHR ''{'')"
  by (simp add: is_word_char_def upper_letters_def lower_letters_def)

lemma takeWhile_before_brace:
  "takeWhile is_word_char (cs @ CHR ''{'' # s) = takeWhile is_word_char cs"
  by (induction cs) (simp_all add: not_word_open_brace)

lemma dropWhile_before_brace:
  "dropWhile is_word_char (cs @ CHR ''{'' # s) = dropWhile is_word_char cs @ CHR ''{'' # s"
  by (induction cs) (simp_all add: not_word_open_brace)

lemma closing_before_brace:
  "take 2 (r @ CHR ''{'' # s) = ''}}'' \<longleftrightarrow> take 2 r = ''}}''"
proof (cases r)
  case Nil
  then show ?thesis by simp
next
  case (Cons x xs)
  then show ?thesis by (cases xs) auto
qed

lemma match_at_before_token:
  assumes "pre \<noteq> []" and X: "X = CHR ''{'' # CHR ''{'' # s"
  shows "match_at (pre @ X) =
       (case match_at pre of None \<Rightarrow> None | Some (name, rest) \<Rightarrow> Some (name, rest @ X))"
proof (cases pre)
  case Nil
  with assms(1) show ?thesis by simp
next
  case (Cons a tail)
  show ?thesis
  proof (cases tail)
    case Nil
    with Cons show ?thesis unfolding X by (simp add: not_word_open_brace)
  next
    case (Cons b cs)
    with \<open>pre = a # tail\<close> have pre: "pre = a # b # cs" by simp
    define r where "r = dropWhile is_word_char cs"
    have tw: "takeWhile is_word_char (cs @ X) = takeWhile is_word_char cs"
      unfolding X by (rule takeWhile_before_brace)
    have dw: "dropWhile is_word_char (cs @ X) = r @ X"
      unfolding X r_def by (rule dropWhile_before_brace)
    have cl: "take 2 (r @ X) = ''}}'' \<longleftrightarrow> take 2 r = ''}}''"
      unfolding X by (rule closing_before_brace)
    have dr: "drop 2 (r @ X) = drop 2 r @ X" if "take 2 r = ''}}''"
    proof -
      from that have "2 \<le> length r" by (cases r; cases "tl r") auto
      then show ?thesis by simp
    qed
    show ?thesis
    proof (cases "a = CHR ''{'' \<and> b = CHR ''{'' \<and> takeWhile is_word_char cs \<noteq> []
                  \<and> take 2 r = ''}}''")
      case True
      then have "match_at pre = Some (takeWhile is_word_char cs, drop 2 r)"
        unfolding pre by (simp add: r_def Let_def)
      moreover from True
      have "match_at (pre @ X) = Some (takeWhile is_word_char cs, drop 2 r @ X)"
        unfolding pre using cl dr by (simp add: tw dw Let_def)
      ultimately show ?thesis by simp
    next
      case False
      then have "match_at pre = None"
        unfolding pre by (auto simp: r_def Let_def)
      moreover from False have "match_at (pre @ X) = None"
        unfolding pre using cl by (auto simp: tw dw Let_def)
      ultimately show ?thesis by simp
    qed
  qed
qed

lemma replace_all_before:
  assumes X: "X = CHR ''{'' # CHR ''{'' # s"
  shows "replace_all f (pre @ X) = replace_all f pre @ replace_all f X"
proof (induction f pre rule: replace_all.induct)
  case (1 f)
  show ?case by simp
next
  case (2 f c cs)
  have m: "match_at ((c # cs) @ X) =
       (case match_at (c # cs) of None \<Rightarrow> None | Some (name, rest) \<Rightarrow> Some (name, rest @ X))"
    by (rule match_at_before_token [OF _ X]) simp
  show ?case
  proof (cases "match_at (c # cs)")
    case None
    with m have "match_at (c # cs @ X) = None" by simp
    with None "2.IH" show ?thesis by simp
  next
    case (Some p)
    obtain name rest where p: "p = (name, rest)" by (cases p)
    with m Some have "match_at (c # cs @ X) = Some (name, rest @ X)" by simp
    with Some p "2.IH" show ?thesis by simp
  qed
qed

lemma replace_all_before_token:
  "replace_all f (pre @ ''{{'' @ s) = replace_all f pre @ replace_all f (''{{'' @ s)"
  using replace_all_before [of "''{{'' @ s" s f pre] by simp

lemma replace_all_token_anywhere:
  assumes "name \<noteq> []" and "\<forall>c\<in>set name. is_word_char c"
  shows "replace_all f (pre @ token_text name @ rest) =
           replace_all f pre @ f name @ replace_all f rest"
proof -
  have t: "token_text name @ rest = ''{{'' @ (name @ ''}}'' @ rest)"
    by (simp add: token_text_def)
  have "token_text name @ rest \<noteq> []" by (simp add: token_text_def)
  then obtain c cs where cs: "token_text name @ rest = c # cs"
    by (cases "token_text name @ rest") auto
  have "replace_all f (token_text name @ rest) = f name @ replace_all f rest"
    using match_at_token [OF assms, of rest] unfolding cs by simp
  moreover have "replace_all f (pre @ token_text name @ rest) =
      replace_all f pre @ replace_all f (token_text name @ rest)"
    unfolding t by (rule replace_all_before_token)
  ultimately show ?thesis by simp
qed

lemma show_nat_nonempty: "show_nat n \<noteq> []"
  by (subst show_nat.simps) simp

lemma ToString_truthy_nonempty: "truthy v \<Longrightarrow> ToString v \<noteq> []"
proof (cases v)
  case (JNum n)
  then show ?thesis by (cases n) simp
qed simp_all

lemma prototype_keys_not_canonical:
  "list_all (\<lambda>k. toLowerCase k \<notin> set canonical_fields) object_prototype_keys"
  by code_simp

lemma prototype_not_canonical:
  assumes "object_prototype name = Some v"
  shows "toLowerCase name \<notin> set canonical_fields"
proof -
  from assms have "name \<in> set object_prototype_keys"
    by (auto simp: object_prototype_def object_prototype_keys_def split: if_splits)
  with prototype_keys_not_canonical show ?thesis
    by (simp add: list_all_iff)
qed

lemma fieldMap_keys: "map fst (fieldMap l) = canonical_fields"
  by (simp add: fieldMap_def canonical_fields_def)

lemma canonical_lookup:
  assumes "field \<in> set canonical_fields"
  shows "js_or (get_property (fieldMap l) field) other =
     (case record_value l field of Some (c # cs) \<Rightarrow> Some (JStr (c # cs)) | _ \<Rightarrow> other)"
proof -
  define P where "P = (\<lambda>field. js_or (get_property (fieldMap l) field) other =
     (case record_value l field of Some (c # cs) \<Rightarrow> Some (JStr (c # cs)) | _ \<Rightarrow> other))"
  have n: "js_or (number_toString n) other =
      (case map_option number_text n of Some (c # cs) \<Rightarrow> Some (JStr (c # cs)) | _ \<Rightarrow> other)" for n
  proof (cases n)
    case None
    then show ?thesis by (simp add: number_toString_def js_or_def)
  next
    case (Some k)
    then show ?thesis by (cases k) (simp add: number_toString_def js_or_def)
  qed
  have t: "js_or (string_or_null t) other =
      (case t of Some (c # cs) \<Rightarrow> Some (JStr (c # cs)) | _ \<Rightarrow> other)" for t
    by (simp add: string_or_null_def js_or_def split: option.splits list.splits)
  have "P ''address''" by (simp add: P_def get_property_def fieldMap_def record_value_def t)
  moreover have "P ''city''" by (simp add: P_def get_property_def fieldMap_def record_value_def t)
  moreover have "P ''state''" by (simp add: P_def get_property_def fieldMap_def record_value_def t)
  moreover have "P ''zipcode''" by (simp add: P_def get_property_def fieldMap_def record_value_def t)
  moreover have "P ''zip''" by (simp add: P_def get_property_def fieldMap_def record_value_def t)
  moreover have "P ''price''" by (simp add: P_def get_property_def fieldMap_def record_value_def n)
  moreover have "P ''bedrooms''" by (simp add: P_def get_property_def fieldMap_def record_value_def n)
  moreover have "P ''bathrooms''" by (simp add: P_def get_property_def fieldMap_def record_value_def n)
  moreover have "P ''squarefeet''" by (simp add: P_def get_property_def fieldMap_def record_value_def n)
  moreover have "P ''description''" by (simp add: P_def get_property_def fieldMap_def record_value_def t)
  moreover have "P ''mlsnumber''" by (simp add: P_def get_property_def fieldMap_def record_value_def t)
  ultimately have "list_all P canonical_fields"
    unfolding canonical_fields_def by (simp only: list.pred_inject simp_thms)
  with assms have "P field"
    by (simp only: list_all_iff)
  then show ?thesis
    by (simp only: P_def)
qed

lemma replacer_canonical:
  assumes "toLowerCase name \<in> set canonical_fields"
  shows "replacer l name =
     (case record_value l (toLowerCase name) of
        Some (c # cs) \<Rightarrow> c # cs
      | _ \<Rightarrow> if truthy_opt (bag_value l name) then ToString_opt (bag_value l name)
             else token_text name)"
proof -
  have p: "object_prototype name = None"
    using prototype_not_canonical [of name] assms by (cases "object_prototype name") auto
  have b: "listingData_lookup l name = bag_value l name"
    by (simp add: listingData_lookup_def bag_value_def get_field_def p split: option.splits)
  show ?thesis
    unfolding replacer_def Let_def canonical_lookup [OF assms] b
    by (simp add: js_or_def split: option.splits list.splits)
qed

lemmas subst_eval =
  replacer_def token_text_def js_or_def get_property_def get_field_def fieldMap_def
  object_prototype_def object_prototype_keys_def toLowerCase_def lower_char_def
  upper_letters_def lower_letters_def is_word_char_def listingData_lookup_def
  string_or_null_def number_toString_def

lemma replacePlaceholders_None: "replacePlaceholders l v = None \<longleftrightarrow> v = None"
  by (cases "(l, v)" rule: replacePlaceholders.cases) simp_all

lemma get_field_set_property_same:
  "object_prototype k = None \<Longrightarrow> (v = None \<longrightarrow> map_of obj k = None) \<Longrightarrow>
     get_field (set_property k v obj) k = v"
  by (cases v) (simp_all add: get_field_def set_property_def update_conv')

lemma get_field_set_property_other:
  "k' \<noteq> k \<Longrightarrow> get_field (set_property k v obj) k' = get_field obj k'"
  by (cases v) (simp_all add: get_field_def set_property_def update_conv')

lemma object_prototype_value_text:
  "object_prototype ''value'' = None" "object_prototype ''text'' = None"
  by (simp_all add: object_prototype_def object_prototype_keys_def)

lemma get_field_None: "get_field obj k = None \<Longrightarrow> map_of obj k = None"
  by (simp add: get_field_def split: option.splits)

lemma processedAction_value:
  "get_field (processedAction l a) ''value'' = replacePlaceholders l (get_field a ''value'')"
  unfolding processedAction_def
  by (simp add: get_field_set_property_other get_field_set_property_same
      object_prototype_value_text replacePlaceholders_None get_field_None)

lemma processedAction_text:
  "get_field (processedAction l a) ''text'' = replacePlaceholders l (get_field a ''text'')"
  unfolding processedAction_def
  by (rule get_field_set_property_same)
     (simp_all add: object_prototype_value_text replacePlaceholders_None
        set_property_def update_conv' get_field_None split: option.splits)

lemma processedAction_other:
  "k \<noteq> ''value'' \<Longrightarrow> k \<noteq> ''text'' \<Longrightarrow> get_field (processedAction l a) k = get_field a k"
  unfolding processedAction_def by (simp add: get_field_set_property_other)







lemma show_nat_3: "show_nat 3 = ''3''"
  by (simp add: show_nat.simps digit_char_def)

lemma decide_with_retry_unfold:
  "decide_with_retry calls 0 log =
     (case calls 0 of
        ApiData r \<Rightarrow> (Inr r, log)
      | ApiError m0 \<Rightarrow>
          (case calls 1 of
             ApiData r \<Rightarrow> (Inr r, log @ [Wait 2000])
           | ApiError m1 \<Rightarrow>
               (case calls 2 of
                  ApiData r \<Rightarrow> (Inr r, log @ [Wait 2000, Wait 4000])
                | ApiError m2 \<Rightarrow>
                    (Inl (''API failed after 3 attempts: '' @ m2),
                     log @ [Wait 2000, Wait 4000]))))"
  apply (subst decide_with_retry.simps)
  apply (subst decide_with_retry.simps)
  apply (subst decide_with_retry.simps)
  apply (auto simp: MAX_RETRIES_def show_nat_3 numeral_2_eq_2 split: attempt.splits)
  done

lemma decide_with_retry_fst:
  "fst (decide_with_retry calls 0 log) = fst (decide_with_retry calls 0 [])"
  by (simp add: decide_with_retry_unfold split: attempt.splits)

lemma decided_action_pass:
  assumes "decided_action env = Some act" and "\<not> falsy_id (tabId st)"
  shows "\<exists>log2.
     loop_pass env (st, i, log) =
       (case executed env of
          Inr u \<Rightarrow>
            (Continue,
             (st\<lparr>actionHistory := push_history (success_entry act) (actionHistory st),
                 currentStep := currentStep st + 1\<rparr>,
              i + 1, log2 @ [ExecuteOnTab act, RecordAction act, Wait 1500]))
        | Inl message \<Rightarrow>
            (Continue,
             (st\<lparr>actionHistory := push_history (failed_entry act message) (actionHistory st)\<rparr>,
              i, log2 @ [ExecuteOnTab act, AgentMessage (failure_message act message), Wait 1500])))"
proof -
  obtain shot url u response where
    c: "screenshot env = Inr shot" "pageInfo env = Inr url" "domInspection env = Inr u"
       "fst (decide_with_retry (aiDecision env) 0 []) = Inr (Some response)"
       "\<not> says_done (case d_response response of None \<Rightarrow> [] | Some t \<Rightarrow> t)"
       "d_action response = Some act"
    using assms(1)
    by (auto simp: decided_action_def split: sum.splits option.splits if_splits)
  obtain log1 where d: "decide_with_retry (aiDecision env) 0 log = (Inr (Some response), log1)"
    using c(4) decide_with_retry_fst [of "aiDecision env" log]
    by (metis prod.collapse)
  show ?thesis
    using c d assms(2)
    by (cases "executed env") (auto simp: loop_pass_def Let_def)
qed

lemma failing_pass:
  assumes "execution_fails env" and "\<not> falsy_id (tabId st)"
  shows "\<exists>st' log'. loop_pass env (st, i, log) = (Continue, (st', i, log'))
           \<and> running st' = running st \<and> tabId st' = tabId st"
proof -
  obtain act m where a: "decided_action env = Some act" "executed env = Inl m"
    using assms(1) by (cases "executed env") (auto simp: execution_fails_def)
  from decided_action_pass [OF a(1) assms(2), of i log] a(2) show ?thesis
    by auto
qed

lemma succeeding_pass:
  assumes "execution_succeeds env" and "\<not> falsy_id (tabId st)"
  shows "\<exists>st' log'. loop_pass env (st, i, log) = (Continue, (st', i + 1, log'))
           \<and> running st' = running st \<and> tabId st' = tabId st"
proof -
  obtain act u where a: "decided_action env = Some act" "executed env = Inr u"
    using assms(1) by (cases "executed env") (auto simp: execution_succeeds_def)
  from decided_action_pass [OF a(1) assms(2), of i log] a(2) show ?thesis
    by auto
qed

lemma failures_keep_iteration:
  assumes "running st" and "\<not> falsy_id (tabId st)" and "i < MAX_ITERATIONS"
    and "\<forall>env\<in>set failures. execution_fails env"
  shows "\<exists>st' log'. run_loop (map Pass failures @ evs) (st, i, log) = run_loop evs (st', i, log')
           \<and> running st' \<and> \<not> falsy_id (tabId st')"
  using assms
proof (induction failures arbitrary: st log)
  case Nil
  then show ?case by auto
next
  case (Cons env failures)
  from Cons.prems have f: "execution_fails env" by simp
  from failing_pass [OF f Cons.prems(2), of i log] obtain st1 log1 where
    p: "loop_pass env (st, i, log) = (Continue, (st1, i, log1))"
       "running st1 = running st" "tabId st1 = tabId st"
    by blast
  have "\<exists>st' log'. run_loop (map Pass failures @ evs) (st1, i, log1) = run_loop evs (st', i, log')
           \<and> running st' \<and> \<not> falsy_id (tabId st')"
    using Cons.IH [of st1 log1] Cons.prems p by simp
  moreover have "run_loop (map Pass (env # failures) @ evs) (st, i, log) =
      run_loop (map Pass failures @ evs) (st1, i, log1)"
    using Cons.prems(1,3) p(1) by simp
  ultimately show ?case by simp
qed

lemmas loop_eval =
  loop_pass_def decide_with_retry_unfold says_done_def push_history_def success_entry_def
  failed_entry_def failure_message_def falsy_id_def Let_def sublist_code
  toLowerCase_def lower_char_def upper_letters_def lower_letters_def
  get_field_def object_prototype_def object_prototype_keys_def js_or_def MAX_ITERATIONS_def

lemma login_goal_is_a_task: "\<not> isJustAQuestion ''login to the site''"
  by (simp add: isJustAQuestion_def trim_def whitespace_def greetings_def questionPatterns_def
      actionVerbs_def sublist_code toLowerCase_def lower_char_def upper_letters_def lower_letters_def Let_def)

lemma typeAtCursor_not_string:
  "\<not> is_string text \<Longrightarrow> typeAtCursor text d = (Inl (invalid_text text), d)"
  by (cases "text" rule: is_string.cases) (simp_all add: typeAtCursor_def)

lemma typeText_not_string:
  assumes "\<not> is_string text"
  shows "typeText selector text d =
     (case querySelector d (ToString_opt selector) of
        Inl err \<Rightarrow> (Inl err, d)
      | Inr None \<Rightarrow> (Inl (''Element not found: '' @ ToString_opt selector), d)
      | Inr (Some e) \<Rightarrow> (Inl (invalid_text text), d))"
  using assms
  by (cases "text" rule: is_string.cases)
     (simp_all add: typeText_def split: sum.splits option.splits)

lemma decide_with_done:
  "decide_with_retry (aiDecision (with_done flag env)) 0 log =
     (case decide_with_retry (aiDecision env) 0 log of
        (Inr (Some r), l) \<Rightarrow> (Inr (Some (r\<lparr>d_done := flag\<rparr>)), l)
      | other \<Rightarrow> other)"
  unfolding decide_with_retry_unfold with_done_def
  by (simp split: attempt.splits option.splits)

lemma loop_pass_with_done: "loop_pass (with_done flag env) ls = loop_pass env ls"
proof -
  obtain st i log where ls: "ls = (st, i, log)" by (cases ls) auto
  have e: "screenshot (with_done flag env) = screenshot env"
    "pageInfo (with_done flag env) = pageInfo env"
    "domInspection (with_done flag env) = domInspection env"
    "executed (with_done flag env) = executed env"
    by (simp_all add: with_done_def)
  obtain res l where d: "decide_with_retry (aiDecision env) 0 log = (res, l)"
    by (cases "decide_with_retry (aiDecision env) 0 log") auto
  show ?thesis
    unfolding ls loop_pass_def
    by (cases "screenshot env"; cases "pageInfo env"; cases "domInspection env"; cases res)
       (simp_all add: e decide_with_done d Let_def split: option.splits)
qed

section \<open>The deterministic decision source (get-next-action)\<close>

text \<open>
  C6, as the specification words it: the returned action is the trace entry with every
  string-valued field run through the substitution engine. The route substitutes the
  fields \<open>value\<close> and \<open>text\<close> only. Counterexample: the first entry of the example
  trace is a \<open>navigate\<close> action whose \<open>url\<close> holds a token; the route returns the
  \<open>url\<close> as recorded, although the engine, applied to it, would resolve the token.
\<close>

theorem get_next_action_leaves_url_unsubstituted:
  "get_next_action (Some example_workflow) (Some example_listing) (Some 7) (Some 9) 0 =
     DataReply (Some [(''action'', JStr ''navigate''),
                      (''url'', JStr ''https://vls.example/edit/{{MLSNUMBER}}'')])
       (Some 0) (Some 2) False None
   \<and> replacePlaceholders example_listing (Some (JStr ''https://vls.example/edit/{{MLSNUMBER}}''))
       = Some (JStr ''https://vls.example/edit/A1'')"
  by (simp add: get_next_action_def recorded_trace_def falsy_id_def example_workflow_def
      example_trace_def processedAction_def set_property_def example_listing_def subst_eval)

text \<open>
  C6, amended: for a request that passes the route's checks (both ids given, a workflow
  in status ready or active, a listing), a cursor at or past the end of the trace yields
  \<open>done = true\<close> and no action; a cursor inside the trace yields the entry at the
  cursor with its \<open>value\<close> and \<open>text\<close> fields run through \<open>replacePlaceholders\<close>
  and every other field as recorded, together with the step index, the number of steps
  and \<open>done = false\<close>.
\<close>

theorem get_next_action_substitutes_value_and_text:
  assumes "\<not> falsy_id reqWorkflowId" and "\<not> falsy_id reqListingId"
    and "status workflow = ''ready'' \<or> status workflow = ''active''"
  shows "(int (length (recorded_trace workflow)) \<le> cursor \<longrightarrow>
            get_next_action (Some workflow) (Some l) reqWorkflowId reqListingId cursor =
              DataReply None None None True (Some ''Workflow execution complete''))
       \<and> (0 \<le> cursor \<and> cursor < int (length (recorded_trace workflow)) \<longrightarrow>
            get_next_action (Some workflow) (Some l) reqWorkflowId reqListingId cursor =
              DataReply (Some (processedAction l (recorded_trace workflow ! nat cursor)))
                (Some cursor) (Some (length (recorded_trace workflow))) False None)
       \<and> get_field (processedAction l a) ''value'' = replacePlaceholders l (get_field a ''value'')
       \<and> get_field (processedAction l a) ''text'' = replacePlaceholders l (get_field a ''text'')
       \<and> (\<forall>k. k \<noteq> ''value'' \<and> k \<noteq> ''text'' \<longrightarrow>
             get_field (processedAction l a) k = get_field a k)"
  using assms
  by (auto simp: get_next_action_def Let_def processedAction_value processedAction_text
      processedAction_other)

text \<open>
  Witness for C6: the example workflow at cursor 1 (the \<open>type\<close> step, whose text is a
  token) and at cursor 2 (the end of the trace).
\<close>

theorem get_next_action_substitutes_value_and_text_witness:
  "get_next_action (Some example_workflow) (Some example_listing) (Some 7) (Some 9) 1 =
     DataReply (Some [(''action'', JStr ''type''), (''selector'', JStr ''#addr''),
                      (''text'', JStr ''123 Main St'')]) (Some 1) (Some 2) False None
   \<and> get_next_action (Some example_workflow) (Some example_listing) (Some 7) (Some 9) 2 =
     DataReply None None None True (Some ''Workflow execution complete'')"
proof -
  have p: "processedAction example_listing (example_trace ! Suc 0) =
      [(''action'', JStr ''type''), (''selector'', JStr ''#addr''), (''text'', JStr ''123 Main St'')]"
    by (simp add: example_trace_def processedAction_def set_property_def example_listing_def
        subst_eval)
  have g: "\<not> falsy_id (Some 7)" "\<not> falsy_id (Some 9)"
    by (simp_all add: falsy_id_def)
  have s: "status example_workflow = ''ready'' \<or> status example_workflow = ''active''"
    by (simp add: example_workflow_def)
  have t: "recorded_trace example_workflow = example_trace"
    by (simp add: recorded_trace_def example_workflow_def)
  have len: "length example_trace = 2"
    by (simp add: example_trace_def)
  from get_next_action_substitutes_value_and_text [OF g s, of 1 example_listing]
       get_next_action_substitutes_value_and_text [OF g s, of 2 example_listing]
  show ?thesis by (simp add: t len p)
qed

section \<open>Placeholder substitution\<close>

text \<open>
  C7 says that a token whose identifier is neither a canonical field nor a key of the
  data bag stays as it is. The lookup \<open>fieldMap[field]\<close> is a property read on an
  object literal, so it also finds what the literal inherits from \<open>Object.prototype\<close>:
  for every listing, \<open>{{constructor}}\<close> is replaced by the text of the function
  \<open>Object\<close>, and \<open>{{__proto__}}\<close> by the text of \<open>Object.prototype\<close>. Neither
  identifier is a canonical field, and neither is a key of any bag.
\<close>

theorem prototype_token_is_replaced:
  "replacePlaceholders l (Some (JStr ''{{constructor}}'')) =
     Some (JStr ''function Object() { [native code] }'')
   \<and> replacePlaceholders l (Some (JStr ''Owner: {{__proto__}}'')) =
     Some (JStr ''Owner: [object Object]'')"
  by (simp add: subst_eval)

text \<open>
  The tokens C7 is right about: wherever it stands in the text, a token whose
  identifier is no canonical field, no property of \<open>Object.prototype\<close> in either
  spelling, and no key of the bag with a truthy cell is put back as the literal token.
\<close>

lemma unresolved_token_kept:
  assumes "name \<noteq> []" and "\<forall>c\<in>set name. is_word_char c"
    and "toLowerCase name \<notin> set canonical_fields"
    and "toLowerCase name \<notin> set object_prototype_keys"
    and "name \<notin> set object_prototype_keys"
    and "\<not> truthy_opt (bag_value l name)"
  shows "replace_all (replacer l) (pre @ token_text name @ rest) =
           replace_all (replacer l) pre @ token_text name @ replace_all (replacer l) rest"
proof -
  have "map_of (fieldMap l) (toLowerCase name) = None"
    using assms(3) fieldMap_keys [of l] by (metis map_of_eq_None_iff set_map)
  moreover have "object_prototype (toLowerCase name) = None" "object_prototype name = None"
    using assms(4,5) by (auto simp: object_prototype_def object_prototype_keys_def)
  ultimately have "replacer l name = token_text name"
    using assms(6)
    by (auto simp: replacer_def Let_def get_property_def listingData_lookup_def get_field_def
        bag_value_def js_or_def split: option.splits)
  with replace_all_token_anywhere [OF assms(1,2), of "replacer l" pre rest] show ?thesis
    by simp
qed

text \<open>
  C10: in the text handed to \<open>replacePlaceholders\<close>, a token whose lower-cased
  identifier names a canonical field is replaced, wherever it stands, by the record
  value of that field when the value is a non-empty text; when the value is \<open>null\<close>
  or the empty string, by the bag's cell under the token's own spelling when that cell is
  truthy; else the literal token is kept. What is put in is never the empty string. The
  text before the token and the text after it come out as they do on their own. A
  numeric column enters as the text of its number, which is never empty: \<open>0\<close> is put
  in as \<open>0\<close>.
\<close>

theorem canonical_token_substitution:
  assumes "name \<noteq> []" and "\<forall>c\<in>set name. is_word_char c"
    and "toLowerCase name \<in> set canonical_fields"
    and "replacePlaceholders l (Some (JStr before)) = Some (JStr before')"
    and "replacePlaceholders l (Some (JStr after)) = Some (JStr after')"
  shows "(let inserted =
            (case record_value l (toLowerCase name) of
               Some (c # cs) \<Rightarrow> c # cs
             | _ \<Rightarrow> if truthy_opt (bag_value l name) then ToString_opt (bag_value l name)
                    else token_text name)
          in replacePlaceholders l (Some (JStr (before @ token_text name @ after))) =
               Some (JStr (before' @ inserted @ after'))
             \<and> inserted \<noteq> [])"
proof -
  have ne: "truthy_opt v \<Longrightarrow> ToString_opt v \<noteq> []" for v
    by (cases v) (simp_all add: ToString_truthy_nonempty)
  have "replacer l name \<noteq> []"
    unfolding replacer_canonical [OF assms(3)] using ne
    by (simp add: token_text_def split: option.splits list.splits)
  moreover have "replace_all (replacer l) (before @ token_text name @ after) =
      replace_all (replacer l) before @ replacer l name @ replace_all (replacer l) after"
    by (rule replace_all_token_anywhere [OF assms(1,2)])
  moreover have "replace_all (replacer l) before = before'"
    "replace_all (replacer l) after = after'"
    using assms(4,5) by simp_all
  ultimately show ?thesis
    by (simp add: replacer_canonical [OF assms(3)] Let_def)
qed

text \<open>
  Witness for C10, on the example listing: \<open>{{PRICE}}\<close> and \<open>{{Bathrooms}}\<close> are
  resolved from numeric columns, \<open>{{STATE}}\<close> from a string column; the city column
  is the empty string and \<open>City\<close> is a key of the bag, so \<open>{{City}}\<close> is resolved
  from the bag; the zip column is \<open>null\<close> and the bag has no key \<open>ZIP\<close>, so
  \<open>{{ZIP}}\<close> stays.
\<close>

theorem canonical_token_substitution_witness:
  "replacePlaceholders example_listing (Some (JStr ''Asking {{PRICE}} in {{City}}, {{STATE}} {{ZIP}}''))
     = Some (JStr ''Asking 350000 in Miami, FL {{ZIP}}'')
   \<and> replacePlaceholders example_listing (Some (JStr ''{{City}}: {{Bathrooms}} baths''))
     = Some (JStr ''Miami: 2.5 baths'')
   \<and> replacePlaceholders example_listing (Some (JStr ''{{ZIP}}'')) = Some (JStr ''{{ZIP}}'')
   \<and> record_value example_listing ''price'' = Some ''350000''
   \<and> record_value example_listing ''city'' = Some []
   \<and> record_value example_listing ''zip'' = None"
proof -
  have w: "\<forall>c\<in>set ''PRICE''. is_word_char c" "\<forall>c\<in>set ''City''. is_word_char c"
    "\<forall>c\<in>set ''ZIP''. is_word_char c"
    by (simp_all add: is_word_char_def upper_letters_def lower_letters_def)
  have c: "toLowerCase ''PRICE'' = ''price''" "toLowerCase ''City'' = ''city''"
    "toLowerCase ''ZIP'' = ''zip''"
    by (simp_all add: toLowerCase_def lower_char_def upper_letters_def lower_letters_def)
  have f: "''price'' \<in> set canonical_fields" "''city'' \<in> set canonical_fields"
    "''zip'' \<in> set canonical_fields"
    by (simp_all add: canonical_fields_def)
  have r1: "replacePlaceholders example_listing (Some (JStr ''Asking '')) = Some (JStr ''Asking '')"
    by code_simp
  have r2: "replacePlaceholders example_listing (Some (JStr '' in {{City}}, {{STATE}} {{ZIP}}''))
       = Some (JStr '' in Miami, FL {{ZIP}}'')"
    by code_simp
  have r3: "replacePlaceholders example_listing (Some (JStr [])) = Some (JStr [])"
    by simp
  have r4: "replacePlaceholders example_listing (Some (JStr '': {{Bathrooms}} baths''))
       = Some (JStr '': 2.5 baths'')"
    by code_simp
  have v: "record_value example_listing ''price'' = Some ''350000''"
    "record_value example_listing ''city'' = Some []"
    "record_value example_listing ''zip'' = None"
    "bag_value example_listing ''City'' = Some (JStr ''Miami'')"
    "bag_value example_listing ''ZIP'' = None"
    by (simp_all add: record_value_def bag_value_def example_listing_def)
  from canonical_token_substitution
         [of "''PRICE''" example_listing "''Asking ''" "''Asking ''"
             "'' in {{City}}, {{STATE}} {{ZIP}}''" "'' in Miami, FL {{ZIP}}''"]
       canonical_token_substitution
         [of "''City''" example_listing "[]" "[]" "'': {{Bathrooms}} baths''" "'': 2.5 baths''"]
       canonical_token_substitution
         [of "''ZIP''" example_listing "[]" "[]" "[]" "[]"]
  show ?thesis
    using w c f r1 r2 r3 r4 v
    by (simp add: Let_def token_text_def del: replacePlaceholders.simps)
qed

section \<open>The action executor\<close>

text \<open>
  C8, as the specification words it: a \<open>type\<close> action whose text is not a string fails
  before the page is touched. Counterexample: the text \<open>null\<close> is not a string, yet
  \<open>action.text || action.value || ''\<close> turns it into the empty string, so the action
  succeeds and the element's value \<open>old\<close> is cleared.
\<close>

theorem falsy_text_is_typed_as_empty:
  "get_field [(''action'', JStr ''type''), (''selector'', JStr ''#addr''), (''text'', JNull)] ''action''
      = Some (JStr ''type'')
   \<and> \<not> is_string (get_field [(''action'', JStr ''type''), (''selector'', JStr ''#addr''),
                                 (''text'', JNull)] ''text'')
   \<and> el_value (elements example_document 0) = ''old''
   \<and> fst (executeAction no_handlers
            [(''action'', JStr ''type''), (''selector'', JStr ''#addr''), (''text'', JNull)]
            example_document) = Inr ()
   \<and> el_value (elements (snd (executeAction no_handlers
            [(''action'', JStr ''type''), (''selector'', JStr ''#addr''), (''text'', JNull)]
            example_document)) 0) = []"
  by (simp add: executeAction_def text_argument_def typeText_def get_field_def js_or_def
      example_document_def example_element_def dispatchEvent_def update_element_def Let_def
      object_prototype_def object_prototype_keys_def focus_def assign_value_def
      text_field_rule_def)

text \<open>
  C8, amended: a \<open>type_at_cursor\<close> action whose text is not a string fails with the
  invalid-text message and leaves the page as it was; a \<open>type\<close> action whose text
  argument, \<open>action.text || action.value || ''\<close>, is not a string fails and leaves the
  page as it was, with the error of \<open>querySelector\<close> or \<open>Element not found\<close> when
  the selector yields no element, and with the invalid-text message otherwise. The text
  argument is not a string exactly when the text is truthy and not a string, or the text
  is falsy and the value is truthy and not a string.
\<close>

theorem non_string_text_fails_before_mutation:
  "(get_field act ''action'' = Some (JStr ''type_at_cursor'') \<and>
      \<not> is_string (get_field act ''text'') \<longrightarrow>
      executeAction handlers act d = (Inl (invalid_text (get_field act ''text'')), d))
   \<and> (get_field act ''action'' = Some (JStr ''type'') \<and> \<not> is_string (text_argument act) \<longrightarrow>
      executeAction handlers act d =
        (case querySelector d (ToString_opt (get_field act ''selector'')) of
           Inl err \<Rightarrow> (Inl err, d)
         | Inr None \<Rightarrow>
             (Inl (''Element not found: '' @ ToString_opt (get_field act ''selector'')), d)
         | Inr (Some e) \<Rightarrow> (Inl (invalid_text (text_argument act)), d)))
   \<and> (\<not> is_string (text_argument act)) =
       (truthy_opt (get_field act ''text'') \<and> \<not> is_string (get_field act ''text'')
        \<or> \<not> truthy_opt (get_field act ''text'') \<and> truthy_opt (get_field act ''value'')
          \<and> \<not> is_string (get_field act ''value''))"
proof (intro conjI)
  show "get_field act ''action'' = Some (JStr ''type_at_cursor'') \<and>
      \<not> is_string (get_field act ''text'') \<longrightarrow>
      executeAction handlers act d = (Inl (invalid_text (get_field act ''text'')), d)"
    by (simp add: executeAction_def typeAtCursor_not_string)
  show "get_field act ''action'' = Some (JStr ''type'') \<and> \<not> is_string (text_argument act) \<longrightarrow>
      executeAction handlers act d =
        (case querySelector d (ToString_opt (get_field act ''selector'')) of
           Inl err \<Rightarrow> (Inl err, d)
         | Inr None \<Rightarrow>
             (Inl (''Element not found: '' @ ToString_opt (get_field act ''selector'')), d)
         | Inr (Some e) \<Rightarrow> (Inl (invalid_text (text_argument act)), d))"
    by (simp add: executeAction_def typeText_not_string)
  show "(\<not> is_string (text_argument act)) =
       (truthy_opt (get_field act ''text'') \<and> \<not> is_string (get_field act ''text'')
        \<or> \<not> truthy_opt (get_field act ''text'') \<and> truthy_opt (get_field act ''value'')
          \<and> \<not> is_string (get_field act ''value''))"
    by (auto simp: text_argument_def js_or_def)
qed

text \<open>
  Witness for C8: the number 42 as the text of a \<open>type_at_cursor\<close> and of a \<open>type\<close>
  action, \<open>true\<close> as the value of a \<open>type\<close> action whose selector finds nothing,
  and the number 5 as the value of a \<open>type\<close> action whose text is \<open>null\<close>.
\<close>

theorem non_string_text_fails_before_mutation_witness:
  "executeAction no_handlers [(''action'', JStr ''type_at_cursor''), (''text'', JNum (Number CHR ''4'' ''2''))]
       example_document =
     (Inl ''Invalid text value: expected string, got number'', example_document)
   \<and> executeAction no_handlers
       [(''action'', JStr ''type''), (''selector'', JStr ''#addr''), (''text'', JNum (Number CHR ''4'' ''2''))]
       example_document =
     (Inl ''Invalid text value: expected string, got number'', example_document)
   \<and> executeAction no_handlers
       [(''action'', JStr ''type''), (''selector'', JStr ''#zip''), (''value'', JBool True)]
       example_document =
     (Inl ''Element not found: #zip'', example_document)
   \<and> executeAction no_handlers
       [(''action'', JStr ''type''), (''selector'', JStr ''#addr''), (''text'', JNull),
        (''value'', JNum (Number CHR ''5'' []))]
       example_document =
     (Inl ''Invalid text value: expected string, got number'', example_document)"
proof -
  have q: "querySelector example_document ''#addr'' = Inr (Some 0)"
          "querySelector example_document ''#zip'' = Inr None"
    by (simp_all add: example_document_def)
  from non_string_text_fails_before_mutation
         [of "[(''action'', JStr ''type_at_cursor''), (''text'', JNum (Number CHR ''4'' ''2''))]"
             no_handlers example_document]
       non_string_text_fails_before_mutation
         [of "[(''action'', JStr ''type''), (''selector'', JStr ''#addr''), (''text'', JNum (Number CHR ''4'' ''2''))]"
             no_handlers example_document]
       non_string_text_fails_before_mutation
         [of "[(''action'', JStr ''type''), (''selector'', JStr ''#zip''), (''value'', JBool True)]"
             no_handlers example_document]
       non_string_text_fails_before_mutation
         [of "[(''action'', JStr ''type''), (''selector'', JStr ''#addr''), (''text'', JNull),
               (''value'', JNum (Number CHR ''5'' []))]"
             no_handlers example_document]
  show ?thesis
    by (simp add: q get_field_def text_argument_def js_or_def invalid_text_def
        object_prototype_def object_prototype_keys_def)
qed

text \<open>
  Where the text is a string, the two functions write as the page's own rules have it.
  Typing \<open>hi\<close> into the example field leaves the caret behind the text, so that
  \<open>X\<close> typed at the cursor gives \<open>hiX\<close>. On the e-mail field, whose type has no
  selection, typing at the cursor appends the text and then fails on the selection
  offsets, before any event is dispatched.
\<close>

lemma typeText_moves_the_caret:
  "el_value (elements (snd (typeText (Some (JStr ''#addr'')) (Some (JStr ''hi''))
       example_document)) 0) = ''hi''
   \<and> selectionStart (elements (snd (typeText (Some (JStr ''#addr'')) (Some (JStr ''hi''))
       example_document)) 0) = Some 2
   \<and> el_value (elements (snd (typeAtCursor (Some (JStr ''X''))
       (snd (typeText (Some (JStr ''#addr'')) (Some (JStr ''hi'')) example_document)))) 0) = ''hiX''"
  by code_simp

lemma typeAtCursor_without_selection:
  "fst (typeAtCursor (Some (JStr ''X'')) (example_document\<lparr>elements := (\<lambda>n. email_element)\<rparr>)) =
     Inl (no_selection email_element)
   \<and> el_value (elements (snd (typeAtCursor (Some (JStr ''X''))
        (example_document\<lparr>elements := (\<lambda>n. email_element)\<rparr>))) 0) = ''annX''
   \<and> dispatched (elements (snd (typeAtCursor (Some (JStr ''X''))
        (example_document\<lparr>elements := (\<lambda>n. email_element)\<rparr>))) 0) = []"
  by code_simp

section \<open>The agent loop\<close>

text \<open>
  C1 says that a decision carrying both \<open>done: true\<close> and an action ends the run
  without executing the action. The loop never reads \<open>done\<close>: it leaves only when the
  text holds \<open>task complete\<close> or \<open>finished\<close>, or when there is no action. On the
  payload the ai-decision route sends at the end of the model's turn, with a closing text
  that holds neither phrase, the pass dispatches the action to the tab, records the
  executor's refusal of the kind \<open>done\<close>, takes back the iteration and goes on.
  In general a pass does the same whatever the flag is.
\<close>

theorem done_flag_is_ignored:
  "loop_pass (with_done flag env) ls = loop_pass env ls
   \<and> loop_pass done_with_action (started_state, 0, []) =
     (Continue,
      (started_state\<lparr>actionHistory :=
          [\<lparr>h_action = Some (JStr ''done''), h_selector = None,
            h_result = ''failed: Unknown action: done''\<rparr>]\<rparr>,
       0,
       [AgentMessage ''The listing has been submitted.'',
        ExecuteOnTab [(''action'', JStr ''done'')],
        AgentMessage ''Action failed: Unknown action: done (tried: done on unknown)'',
        Wait 1500]))
   \<and> executeAction handlers [(''action'', JStr ''done'')] d = (Inl ''Unknown action: done'', d)"
  by (simp add: loop_pass_with_done)
     (simp add: loop_eval done_with_action_def started_state_def executeAction_def
        other_kinds_def)

text \<open>
  C2: in a running loop below the cap, passes whose action fails to execute leave the
  iteration counter where it was and the loop going, however many they are; the pass
  whose action then succeeds raises the counter by one. So \<open>K\<close> failures followed by
  a success consume one unit of the budget.
\<close>

theorem failed_attempts_consume_no_budget:
  assumes "running st" and "\<not> falsy_id (tabId st)" and "i < MAX_ITERATIONS"
    and "\<forall>env\<in>set failures. execution_fails env"
    and "execution_succeeds ok"
  shows "iteration_of (run_loop (map Pass failures) (st, i, log)) = i
       \<and> exit_of (run_loop (map Pass failures) (st, i, log)) = Unfinished
       \<and> iteration_of (run_loop (map Pass failures @ [Pass ok]) (st, i, log)) = i + 1"
proof -
  from failures_keep_iteration [OF assms(1-4), of "[]" log] obtain st1 log1 where
    a: "run_loop (map Pass failures) (st, i, log) = run_loop [] (st1, i, log1)"
       "running st1" "\<not> falsy_id (tabId st1)"
    by auto
  from failures_keep_iteration [OF assms(1-4), of "[Pass ok]" log] obtain st2 log2 where
    b: "run_loop (map Pass failures @ [Pass ok]) (st, i, log) = run_loop [Pass ok] (st2, i, log2)"
       "running st2" "\<not> falsy_id (tabId st2)"
    by auto
  from succeeding_pass [OF assms(5) b(3), of i log2] obtain st3 log3 where
    c: "loop_pass ok (st2, i, log2) = (Continue, (st3, i + 1, log3))"
    by blast
  have "iteration_of (run_loop [Pass ok] (st2, i, log2)) = i + 1"
    using b(2) assms(3) c by (simp add: iteration_of_def)
  with a b assms(3) show ?thesis
    by (simp add: iteration_of_def exit_of_def)
qed

text \<open>
  Witness for C2: from iteration 7, two passes whose click finds no element and one
  whose click succeeds end at iteration 8.
\<close>

theorem failed_attempts_consume_no_budget_witness:
  "running started_state \<and> execution_succeeds (acting click_go (Inr ())) \<and>
   execution_fails (acting click_go (Inl ''Element not found: #go'')) \<and>
   iteration_of (run_loop (map Pass [acting click_go (Inl ''Element not found: #go''),
                                     acting click_go (Inl ''Element not found: #go'')]
                           @ [Pass (acting click_go (Inr ()))]) (started_state, 7, [])) = 8"
proof -
  have d: "decided_action (acting click_go r) = Some click_go" for r
    by (simp add: decided_action_def acting_def click_go_def decide_with_retry_unfold
        says_done_def sublist_code toLowerCase_def lower_char_def upper_letters_def
        lower_letters_def)
  have f: "execution_fails (acting click_go (Inl ''Element not found: #go''))"
    using d by (simp add: execution_fails_def acting_def)
  then have fs: "\<forall>env\<in>set [acting click_go (Inl ''Element not found: #go''),
                       acting click_go (Inl ''Element not found: #go'')]. execution_fails env"
    by simp
  have s: "execution_succeeds (acting click_go (Inr ()))"
    using d by (simp add: execution_succeeds_def acting_def)
  have r: "running started_state" "\<not> falsy_id (tabId started_state)" "(7::int) < MAX_ITERATIONS"
    by (simp_all add: started_state_def falsy_id_def MAX_ITERATIONS_def)
  from failed_attempts_consume_no_budget [OF r fs s, of "[]"] r(1) f s show ?thesis
    by simp
qed

text \<open>
  C3 says that the failed decision call is retried with pauses of 2 s, then 4 s, then
  8 s. With \<open>MAX_RETRIES = 3\<close> the third failure throws before any pause: whatever
  the three failures are, the pauses are 2000 ms and 4000 ms and no more, and the error
  names the count 3. The run then ends as a failure, torn down, with that message.
\<close>

theorem exhausted_retries_wait_twice:
  "decide_with_retry (\<lambda>n. ApiError (message n)) 0 log =
     (Inl (''API failed after 3 attempts: '' @ message 2), log @ [Wait 2000, Wait 4000])
   \<and> runAgent (example_run [Pass failing_api]) ''login to the site'' ''tok'' initial_state =
     (Returned,
      started_state\<lparr>running := False, goal := None\<rparr>,
      [WorkflowCreatedMessage, Wait 2000, Wait 4000,
       AgentMessage ''Error: API failed after 3 attempts: Failed to fetch''])"
  by (simp add: decide_with_retry_unfold runAgent_def login_goal_is_a_task example_run_def
      initial_state_def started_state_def falsy_id_def internal_page_def failing_api_def
      loop_pass_def stopAgent_def MAX_ITERATIONS_def)

text \<open>
  The same for every pass: when the captures succeed and the three calls fail, the pass
  throws after the two pauses, with the message of the third failure.
\<close>

lemma exhausted_retries_throw:
  assumes "\<not> falsy_id (tabId st)" and "screenshot env = Inr shot" and "pageInfo env = Inr url"
    and "domInspection env = Inr u" and "aiDecision env 0 = ApiError m0"
    and "aiDecision env 1 = ApiError m1" and "aiDecision env 2 = ApiError m2"
  shows "loop_pass env (st, i, log) =
     (Throw (''API failed after 3 attempts: '' @ m2), (st, i + 1, log @ [Wait 2000, Wait 4000]))"
  using assms by (simp add: loop_pass_def decide_with_retry_unfold)

text \<open>
  C4 says that every way a run ends resets the run state, failures before the loop
  included. \<open>runAgent\<close> sets \<open>running\<close> and the goal before it looks for the tab, and
  the checks that follow throw outside the \<open>try ... finally\<close> that calls \<open>stopAgent\<close>:
  with no active tab the call throws and leaves \<open>running = true\<close> and the goal in
  place, and the next start is refused as already running.
\<close>

theorem preflight_failure_leaves_run_state:
  "runAgent ((example_run []) \<lparr>activeTab := Some \<lparr>tab_id = None, tab_url = None\<rparr>\<rparr>)
       ''login to the site'' ''tok'' initial_state =
     (Raised ''No active tab found'',
      initial_state\<lparr>running := True, goal := Some ''login to the site'',
                    authToken := Some ''tok''\<rparr>,
      [])
   \<and> runAgent (example_run []) ''login to the site'' ''tok''
       (initial_state\<lparr>running := True, goal := Some ''login to the site'',
                      authToken := Some ''tok''\<rparr>) =
     (Raised ''Agent is already running'',
      initial_state\<lparr>running := True, goal := Some ''login to the site'',
                    authToken := Some ''tok''\<rparr>,
      [])"
  by (simp add: runAgent_def login_goal_is_a_task example_run_def initial_state_def
      falsy_id_def)

text \<open>
  The same for every failure before the loop: a call that found \<open>running\<close> unset
  and throws leaves \<open>running\<close> set and the goal in place.
\<close>

lemma preflight_throw_keeps_running:
  assumes "runAgent env goalText token st = (Raised message, st', log)" and "\<not> running st"
  shows "running st' \<and> goal st' = Some goalText"
  using assms
  by (auto simp: runAgent_def Let_def
      split: option.splits sum.splits prod.splits loop_exit.splits if_splits)

text \<open>
  The part of C4 the code keeps: a call of \<open>runAgent\<close> that entered the loop and
  returned, whether the loop ended by a decision, the cap, a thrown error or a stop
  request, leaves \<open>running = false\<close>, no goal and empty histories.
\<close>

lemma run_teardown:
  assumes "runAgent env goalText token st = (Returned, st', log)"
    and "\<not> isJustAQuestion goalText"
  shows "\<not> running st' \<and> goal st' = None \<and> actionHistory st' = [] \<and> messageHistory st' = []"
  using assms
  by (auto simp: runAgent_def Let_def stopAgent_def
      split: option.splits sum.splits prod.splits loop_exit.splits if_splits)

text \<open>
  C5 says that at most one run is running at any time. The guard of \<open>runAgent\<close>
  looks at the flag \<open>running\<close> only, and \<open>stopAgent\<close> clears that flag at once,
  while the loop it stops is still suspended in its pass. A start that arrives before
  that loop has tested the flag again gets past the guard and sets the flag anew; the
  first loop then finds it set and goes on. Below, the first run has made one pass and
  is in its pause; \<open>stop_agent\<close> arrives, then \<open>run_agent\<close> with another goal.
  The second call is in flight with its own loop at iteration 0, and the first loop,
  resumed at its iteration 1, passes its test and executes a further action, which it
  books on the second run's history and step counter: two loops run on one state.
\<close>

theorem stopped_run_goes_on_after_restart:
  "run_loop [Pass (acting click_go (Inr ()))] (started_state, 0, [WorkflowCreatedMessage]) =
     (Unfinished, (after_first_click, 1, first_log))
   \<and> stopAgent after_first_click =
       started_state\<lparr>running := False, goal := None, currentStep := 1\<rparr>
   \<and> runAgent ((example_run []) \<lparr>workflowCreation := Inr 5\<rparr>) ''fill the form'' ''tok2''
         (stopAgent after_first_click) =
       (Pending, restarted_state, [WorkflowCreatedMessage])
   \<and> run_loop [Pass (acting click_go (Inr ()))] (restarted_state, 1, first_log) =
       (Unfinished,
        (restarted_state\<lparr>actionHistory := [\<lparr>h_action = Some (JStr ''click''),
                                               h_selector = Some (JStr ''#go''),
                                               h_result = ''success''\<rparr>],
                          currentStep := 1\<rparr>,
         2,
         first_log @ [AgentMessage ''Clicking the button'', ExecuteOnTab click_go,
                      RecordAction click_go, Wait 1500]))"
proof -
  have g: "\<not> isJustAQuestion ''fill the form''"
    by (simp add: isJustAQuestion_def trim_def whitespace_def greetings_def questionPatterns_def
        actionVerbs_def sublist_code toLowerCase_def lower_char_def upper_letters_def
        lower_letters_def Let_def)
  have p: "loop_pass (acting click_go (Inr ())) (st, i, log) =
      (Continue,
       (st\<lparr>actionHistory := push_history (success_entry click_go) (actionHistory st),
           currentStep := currentStep st + 1\<rparr>,
        i + 1,
        log @ [AgentMessage ''Clicking the button'', ExecuteOnTab click_go,
               RecordAction click_go, Wait 1500]))"
    if "\<not> falsy_id (tabId st)" for st i log
    using that
    by (simp add: loop_pass_def acting_def decide_with_retry_unfold says_done_def sublist_code
        toLowerCase_def lower_char_def upper_letters_def lower_letters_def Let_def)
  have e: "push_history (success_entry click_go) [] =
      [\<lparr>h_action = Some (JStr ''click''), h_selector = Some (JStr ''#go''),
        h_result = ''success''\<rparr>]"
    by (simp add: push_history_def success_entry_def click_go_def get_field_def Let_def)
  have t: "\<not> falsy_id (tabId started_state)" "\<not> falsy_id (tabId restarted_state)"
    by (simp_all add: started_state_def restarted_state_def falsy_id_def)
  have a: "run_loop [Pass (acting click_go (Inr ()))] (started_state, 0, [WorkflowCreatedMessage]) =
     (Unfinished, (after_first_click, 1, first_log))"
    by (simp add: p [OF t(1)])
       (simp add: started_state_def after_first_click_def first_log_def e MAX_ITERATIONS_def)
  have b: "stopAgent after_first_click =
       started_state\<lparr>running := False, goal := None, currentStep := 1\<rparr>"
    by (simp add: stopAgent_def after_first_click_def started_state_def)
  have c: "runAgent ((example_run []) \<lparr>workflowCreation := Inr 5\<rparr>) ''fill the form'' ''tok2''
         (stopAgent after_first_click) =
       (Pending, restarted_state, [WorkflowCreatedMessage])"
    by (simp add: b runAgent_def g example_run_def started_state_def restarted_state_def
        falsy_id_def internal_page_def MAX_ITERATIONS_def)
  have d: "run_loop [Pass (acting click_go (Inr ()))] (restarted_state, 1, first_log) =
       (Unfinished,
        (restarted_state\<lparr>actionHistory := [\<lparr>h_action = Some (JStr ''click''),
                                               h_selector = Some (JStr ''#go''),
                                               h_result = ''success''\<rparr>],
                          currentStep := 1\<rparr>,
         2,
         first_log @ [AgentMessage ''Clicking the button'', ExecuteOnTab click_go,
                      RecordAction click_go, Wait 1500]))"
    by (simp add: p [OF t(2)])
       (simp add: restarted_state_def e MAX_ITERATIONS_def)
  from a b c d show ?thesis by simp
qed

text \<open>
  The part of C5 the code keeps: while \<open>running\<close> is set, a start throws
  \<open>Agent is already running\<close>, does nothing to the outside and leaves the whole
  state, goal, history and counters included, as it was.
\<close>

lemma second_start_is_rejected:
  "running st \<Longrightarrow>
     runAgent env goalText token st = (Raised ''Agent is already running'', st, [])"
  by (simp add: runAgent_def)

text \<open>
  For instance: a first run is in flight (its script has not ended); a second start,
  with another goal, is refused and the first run's state stands.
\<close>

lemma second_start_is_rejected_example:
  "runAgent (example_run []) ''login to the site'' ''tok'' initial_state =
     (Pending, started_state, [WorkflowCreatedMessage])
   \<and> running started_state
   \<and> runAgent (example_run [Pass failing_api]) ''fill the form'' ''tok2'' started_state =
     (Raised ''Agent is already running'', started_state, [])"
proof -
  have r: "running started_state"
    by (simp add: started_state_def)
  have p: "runAgent (example_run []) ''login to the site'' ''tok'' initial_state =
     (Pending, started_state, [WorkflowCreatedMessage])"
    by (simp add: runAgent_def login_goal_is_a_task example_run_def initial_state_def
        started_state_def falsy_id_def internal_page_def MAX_ITERATIONS_def)
  from second_start_is_rejected
         [OF r, of "example_run [Pass failing_api]" "''fill the form''" "''tok2''"] r p
  show ?thesis by simp
qed



end
